theory Spec2Isabelle
  imports Main "HOL-Library.Word"
begin

unbundle bit_operations_syntax

section \<open>The operand parser of \<open>optdd.c\<close>\<close>

text \<open>
  The development embeds \<open>src/optdd.c\<close>: \<open>usage\<close>, \<open>operand_matches\<close>, \<open>operand_is\<close>,
  \<open>scanargs\<close> and \<open>main\<close>. The file-scope variables and the locals of \<open>scanargs\<close> are the
  fields of one record that every function takes and returns; \<open>exit\<close> is a value of the
  result type. An LP64 platform is assumed: \<open>int\<close> has 32 bits, \<open>size_t\<close> and
  \<open>uintmax_t\<close> have 64.
\<close>

subsection \<open>Machine types and constants\<close>

type_synonym cint = "32 word"
type_synonym size_t = "64 word"
type_synonym uintmax = "64 word"

definition EXIT_SUCCESS :: nat where "EXIT_SUCCESS = 0"
definition EXIT_FAILURE :: nat where "EXIT_FAILURE = 1"

definition UINTMAX_MAX :: uintmax where "UINTMAX_MAX = - 1"
definition SIZE_MAX :: uintmax where "SIZE_MAX = - 1"

text \<open>Modelled from the spec: the macro \<open>DEFAULT_BLOCKSIZE\<close> is not defined in the source;
  the resolver's step 2 gives the default block size as 512.\<close>

definition DEFAULT_BLOCKSIZE :: size_t where "DEFAULT_BLOCKSIZE = 512"

text \<open>The conversion bits, written in octal in the source.\<close>

definition C_ASCII :: cint where "C_ASCII = 1"
definition C_EBCDIC :: cint where "C_EBCDIC = 2"
definition C_IBM :: cint where "C_IBM = 4"
definition C_BLOCK :: cint where "C_BLOCK = 8"
definition C_UNBLOCK :: cint where "C_UNBLOCK = 16"
definition C_LCASE :: cint where "C_LCASE = 32"
definition C_UCASE :: cint where "C_UCASE = 64"
definition C_SWAB :: cint where "C_SWAB = 128"
definition C_NOERROR :: cint where "C_NOERROR = 256"
definition C_NOTRUNC :: cint where "C_NOTRUNC = 512"
definition C_SYNC :: cint where "C_SYNC = 1024"
definition C_TWOBUFS :: cint where "C_TWOBUFS = 2048"
definition C_NOCREAT :: cint where "C_NOCREAT = 4096"
definition C_EXCL :: cint where "C_EXCL = 8192"
definition C_FDATASYNC :: cint where "C_FDATASYNC = 16384"
definition C_FSYNC :: cint where "C_FSYNC = 32768"
definition C_SPARSE :: cint where "C_SPARSE = 65536"

type_synonym symbol_value = "string \<times> cint"

definition conversions :: "symbol_value list" where
  "conversions =
    [(''ascii'', C_ASCII OR C_UNBLOCK OR C_TWOBUFS),
     (''ebcdic'', C_EBCDIC OR C_BLOCK OR C_TWOBUFS),
     (''ibm'', C_IBM OR C_BLOCK OR C_TWOBUFS),
     (''block'', C_BLOCK OR C_TWOBUFS),
     (''unblock'', C_UNBLOCK OR C_TWOBUFS),
     (''lcase'', C_LCASE OR C_TWOBUFS),
     (''ucase'', C_UCASE OR C_TWOBUFS),
     (''sparse'', C_SPARSE),
     (''swab'', C_SWAB OR C_TWOBUFS),
     (''noerror'', C_NOERROR),
     (''nocreat'', C_NOCREAT),
     (''excl'', C_EXCL),
     (''notrunc'', C_NOTRUNC),
     (''sync'', C_SYNC),
     (''fdatasync'', C_FDATASYNC),
     (''fsync'', C_FSYNC),
     ('''', 0)]"

text \<open>The error codes of the integer parser (\<open>strtol_error\<close> of \<open>xstrtol.h\<close>).\<close>

datatype strtol_error =
  LONGINT_OK | LONGINT_OVERFLOW | LONGINT_INVALID_SUFFIX_CHAR
  | LONGINT_INVALID_SUFFIX_CHAR_WITH_OVERFLOW | LONGINT_INVALID

subsection \<open>Program state and results\<close>

text \<open>What the program writes: a line on standard output (\<open>puts\<close>), a line on standard
  error (\<open>fprintf (stderr, ...)\<close>), or a message of \<open>error\<close> with its error number.\<close>

datatype errnum = No_errno | EOVERFLOW

datatype output_line = Stdout string | Stderr string | Diagnostic errnum string

datatype iread_fn = iread | iread_fullblock

text \<open>The fields from \<open>blocksize\<close> to \<open>seek\<close> are the locals of \<open>scanargs\<close>; \<open>transcript\<close> is
  everything written so far. The others are the file-scope variables.\<close>

record dd_state =
  input_file :: "string option"
  output_file :: "string option"
  conversions_mask :: cint
  input_flags :: cint
  output_flags :: cint
  status_level :: cint
  input_blocksize :: size_t
  output_blocksize :: size_t
  conversion_blocksize :: size_t
  skip_records :: uintmax
  skip_bytes :: uintmax
  max_records :: uintmax
  max_bytes :: uintmax
  seek_records :: uintmax
  seek_bytes :: uintmax
  warn_partial_read :: bool
  iread_fnc :: iread_fn
  i_nocache :: bool
  o_nocache :: bool
  blocksize :: size_t
  count :: uintmax
  skip :: uintmax
  seek :: uintmax
  transcript :: "output_line list"

text \<open>A function either returns with the new state, or the process exits with a status,
  or the function runs into behaviour that C leaves undefined.\<close>

datatype outcome =
  Return dd_state
  | Exit nat "output_line list"
  | Undefined_behaviour "output_line list"

fun and_then :: "outcome \<Rightarrow> (dd_state \<Rightarrow> outcome) \<Rightarrow> outcome" where
  "and_then (Return s) f = f s"
| "and_then (Exit n out) f = Exit n out"
| "and_then (Undefined_behaviour out) f = Undefined_behaviour out"

text \<open>
  What the source uses and does not define: the two parsers, two symbol tables, the flag
  bits, the block-size bound and the quoting function. They are parameters of the model.
  \<open>parse_symbols\<close> either returns a mask or reports a diagnostic and ends the process
  (\<open>Inl\<close>); \<open>parse_integer\<close> returns the number and the error code it stores through its
  second argument. The last six flag bits are not tested by \<open>scanargs\<close>; they are the
  values of their names in the table \<open>flags\<close>.
\<close>

record externs =
  parse_symbols :: "string \<Rightarrow> symbol_value list \<Rightarrow> bool \<Rightarrow> string \<Rightarrow> output_line + cint"
  parse_integer :: "string \<Rightarrow> uintmax \<times> strtol_error"
  flags :: "symbol_value list"
  statuses :: "symbol_value list"
  quote :: "string \<Rightarrow> string"
  MAX_BLOCKSIZE :: "uintmax \<Rightarrow> uintmax"
  INPUT_BLOCK_SLOP :: uintmax
  OUTPUT_BLOCK_SLOP :: uintmax
  O_DSYNC :: cint
  O_SYNC :: cint
  O_RSYNC :: cint
  O_DIRECT :: cint
  O_NOCACHE :: cint
  O_FULLBLOCK :: cint
  O_COUNT_BYTES :: cint
  O_SKIP_BYTES :: cint
  O_SEEK_BYTES :: cint
  O_APPEND :: cint
  O_DIRECTORY :: cint
  O_NONBLOCK :: cint
  O_NOATIME :: cint
  O_NOCTTY :: cint
  O_NOFOLLOW :: cint

text \<open>Modelled from the spec: \<open>multiple_bits_set\<close> is not defined in the source; the spec
  defines "multiple bits set" as \<open>x & (x-1) != 0\<close>.\<close>

definition multiple_bits_set :: "cint \<Rightarrow> bool" where
  "multiple_bits_set i = (i AND (i - 1) \<noteq> 0)"

subsection \<open>\<open>error\<close> and \<open>usage\<close>\<close>

text \<open>\<open>error (status, errnum, ...)\<close> of \<open>error.h\<close> writes the message and exits when
  \<open>status\<close> is not 0.\<close>

definition error :: "nat \<Rightarrow> errnum \<Rightarrow> string \<Rightarrow> dd_state \<Rightarrow> outcome" where
  "error status en msg s =
    (let out = transcript s @ [Diagnostic en msg]
     in if status \<noteq> 0 then Exit status out else Return (s\<lparr>transcript := out\<rparr>))"

definition usage :: "nat \<Rightarrow> dd_state \<Rightarrow> outcome" where
  "usage status s =
    (if status \<noteq> EXIT_SUCCESS
     then Return (s\<lparr>transcript := transcript s @ [Stderr ''Try 'dd --help' for more information.'']\<rparr>)
     else Exit status (transcript s))"

subsection \<open>Matching operand names\<close>

text \<open>The strings are C strings without their terminator: the end of the list is the
  NUL byte.\<close>

fun operand_matches :: "string \<Rightarrow> string \<Rightarrow> char \<Rightarrow> bool" where
  "operand_matches str [] delim = (case str of [] \<Rightarrow> True | c # _ \<Rightarrow> c = delim)"
| "operand_matches [] (p # ps) delim = False"
| "operand_matches (c # cs) (p # ps) delim =
    (if c \<noteq> p then False else operand_matches cs ps delim)"

definition operand_is :: "string \<Rightarrow> string \<Rightarrow> bool" where
  "operand_is operand name = operand_matches operand name (CHR ''='')"

fun strchr :: "string \<Rightarrow> char \<Rightarrow> string option" where
  "strchr [] c = None"
| "strchr (x # xs) c = (if x = c then Some (x # xs) else strchr xs c)"

subsection \<open>The operand pass of \<open>scanargs\<close>\<close>

text \<open>The numeric operands (the last \<open>else\<close> of the loop body). Each branch fixes the
  bounds and stores \<open>n\<close> before the bounds are checked; the branch for an unknown name
  reports it and goes on to the checks, because \<open>usage (EXIT_FAILURE)\<close> returns.\<close>

definition scan_number :: "externs \<Rightarrow> string \<Rightarrow> string \<Rightarrow> dd_state \<Rightarrow> outcome" where
  "scan_number e name val s =
    (let (n, invalid) = parse_integer e val;
         (n_min, n_max, r) =
           (if operand_is name ''ibs''
            then (1, MAX_BLOCKSIZE e (INPUT_BLOCK_SLOP e), Return (s\<lparr>input_blocksize := n\<rparr>))
            else if operand_is name ''obs''
            then (1, MAX_BLOCKSIZE e (OUTPUT_BLOCK_SLOP e), Return (s\<lparr>output_blocksize := n\<rparr>))
            else if operand_is name ''bs''
            then (1, MAX_BLOCKSIZE e (INPUT_BLOCK_SLOP e), Return (s\<lparr>blocksize := n\<rparr>))
            else if operand_is name ''cbs''
            then (1, SIZE_MAX, Return (s\<lparr>conversion_blocksize := n\<rparr>))
            else if operand_is name ''skip''
            then (0, UINTMAX_MAX, Return (s\<lparr>skip := n\<rparr>))
            else if operand_is name ''seek''
            then (0, UINTMAX_MAX, Return (s\<lparr>seek := n\<rparr>))
            else if operand_is name ''count''
            then (0, UINTMAX_MAX, Return (s\<lparr>count := n\<rparr>))
            else (0, UINTMAX_MAX,
                  and_then (error 0 No_errno (''unrecognized operand '' @ quote e name) s)
                    (usage EXIT_FAILURE)))
     in and_then r (\<lambda>s1.
          let invalid1 = (if n < n_min then LONGINT_INVALID
                          else if n_max < n then LONGINT_OVERFLOW
                          else invalid)
          in if invalid1 \<noteq> LONGINT_OK
             then error EXIT_FAILURE (if invalid1 = LONGINT_OVERFLOW then EOVERFLOW else No_errno)
                    (''invalid number: '' @ quote e val) s1
             else Return s1))"

text \<open>One turn of the loop, for the argument \<open>name\<close>. When the argument has no \<open>=\<close>,
  \<open>strchr\<close> gives the null pointer, the two reports are written, \<open>usage\<close> returns and
  \<open>val++\<close> increments the null pointer, which C leaves undefined.\<close>

definition scan_operand :: "externs \<Rightarrow> string \<Rightarrow> dd_state \<Rightarrow> outcome" where
  "scan_operand e name s =
    (case strchr name (CHR ''='') of
       None \<Rightarrow>
         and_then (and_then (error 0 No_errno (''unrecognized operand '' @ name) s)
                     (usage EXIT_FAILURE))
           (\<lambda>s1. Undefined_behaviour (transcript s1))
     | Some v \<Rightarrow>
         (let val = tl v
          in if operand_is name ''if'' then Return (s\<lparr>input_file := Some val\<rparr>)
             else if operand_is name ''of'' then Return (s\<lparr>output_file := Some val\<rparr>)
             else if operand_is name ''conv''
             then (case parse_symbols e val conversions False ''invalid conversion'' of
                     Inl d \<Rightarrow> Exit EXIT_FAILURE (transcript s @ [d])
                   | Inr m \<Rightarrow> Return (s\<lparr>conversions_mask := conversions_mask s OR m\<rparr>))
             else if operand_is name ''iflag''
             then (case parse_symbols e val (flags e) False ''invalid input flag'' of
                     Inl d \<Rightarrow> Exit EXIT_FAILURE (transcript s @ [d])
                   | Inr m \<Rightarrow> Return (s\<lparr>input_flags := input_flags s OR m\<rparr>))
             else if operand_is name ''oflag''
             then (case parse_symbols e val (flags e) False ''invalid output flag'' of
                     Inl d \<Rightarrow> Exit EXIT_FAILURE (transcript s @ [d])
                   | Inr m \<Rightarrow> Return (s\<lparr>output_flags := output_flags s OR m\<rparr>))
             else if operand_is name ''status''
             then (case parse_symbols e val (statuses e) True ''invalid status level'' of
                     Inl d \<Rightarrow> Exit EXIT_FAILURE (transcript s @ [d])
                   | Inr m \<Rightarrow> Return (s\<lparr>status_level := m\<rparr>))
             else scan_number e name val s))"

text \<open>The loop \<open>for (i = optind; i < argc; i++)\<close> over the arguments from \<open>optind\<close> on.\<close>

fun scan_operands :: "externs \<Rightarrow> string list \<Rightarrow> dd_state \<Rightarrow> outcome" where
  "scan_operands e [] s = Return s"
| "scan_operands e (name # rest) s = and_then (scan_operand e name s) (scan_operands e rest)"

subsection \<open>The resolver of \<open>scanargs\<close>\<close>

text \<open>Block sizes and the conversion block size (lines 283 to 297).\<close>

definition resolve_blocksizes :: "dd_state \<Rightarrow> dd_state" where
  "resolve_blocksizes s =
    (let s1 = (if blocksize s \<noteq> 0
               then s\<lparr>input_blocksize := blocksize s, output_blocksize := blocksize s\<rparr>
               else s\<lparr>conversions_mask := conversions_mask s OR C_TWOBUFS\<rparr>);
         s2 = (if input_blocksize s1 = 0 then s1\<lparr>input_blocksize := DEFAULT_BLOCKSIZE\<rparr> else s1);
         s3 = (if output_blocksize s2 = 0 then s2\<lparr>output_blocksize := DEFAULT_BLOCKSIZE\<rparr> else s2)
     in if conversion_blocksize s3 = 0
        then s3\<lparr>conversions_mask := conversions_mask s3 AND NOT (C_BLOCK OR C_UNBLOCK)\<rparr>
        else s3)"

text \<open>The read-synchronisation alias (lines 299 and 300).\<close>

definition resolve_rsync :: "externs \<Rightarrow> dd_state \<Rightarrow> dd_state" where
  "resolve_rsync e s =
    (if input_flags s AND (O_DSYNC e OR O_SYNC e) \<noteq> 0
     then s\<lparr>input_flags := input_flags s OR O_RSYNC e\<rparr>
     else s)"

text \<open>The checks for misplaced flags (lines 302 to 320). Each reports and calls
  \<open>usage (EXIT_FAILURE)\<close>.\<close>

definition check_misplaced :: "externs \<Rightarrow> dd_state \<Rightarrow> outcome" where
  "check_misplaced e s =
    and_then
      (if output_flags s AND O_FULLBLOCK e \<noteq> 0
       then and_then (error 0 No_errno (''invalid output flag: '' @ quote e ''fullblock'') s)
              (usage EXIT_FAILURE)
       else Return s)
      (\<lambda>s1. and_then
         (if input_flags s1 AND O_SEEK_BYTES e \<noteq> 0
          then and_then (error 0 No_errno (''invalid input flag: '' @ quote e ''seek_bytes'') s1)
                 (usage EXIT_FAILURE)
          else Return s1)
         (\<lambda>s2. if output_flags s2 AND (O_COUNT_BYTES e OR O_SKIP_BYTES e) \<noteq> 0
                then and_then
                       (error 0 No_errno
                          (''invalid output flag: '' @
                           quote e (if output_flags s2 AND O_COUNT_BYTES e \<noteq> 0
                                    then ''count_bytes'' else ''skip_bytes'')) s2)
                       (usage EXIT_FAILURE)
                else Return s2))"

text \<open>Skip, count and seek are split into records and bytes (lines 322 to 344).\<close>

definition resolve_offsets :: "externs \<Rightarrow> dd_state \<Rightarrow> dd_state" where
  "resolve_offsets e s =
    (let s1 = (if input_flags s AND O_SKIP_BYTES e \<noteq> 0 \<and> skip s \<noteq> 0
               then s\<lparr>skip_records := skip s div input_blocksize s,
                      skip_bytes := skip s mod input_blocksize s\<rparr>
               else if skip s \<noteq> 0 then s\<lparr>skip_records := skip s\<rparr>
               else s);
         s2 = (if input_flags s1 AND O_COUNT_BYTES e \<noteq> 0 \<and> count s1 \<noteq> - 1
               then s1\<lparr>max_records := count s1 div input_blocksize s1,
                       max_bytes := count s1 mod input_blocksize s1\<rparr>
               else if count s1 \<noteq> - 1 then s1\<lparr>max_records := count s1\<rparr>
               else s1)
     in if output_flags s2 AND O_SEEK_BYTES e \<noteq> 0 \<and> seek s2 \<noteq> 0
        then s2\<lparr>seek_records := seek s2 div output_blocksize s2,
                seek_bytes := seek s2 mod output_blocksize s2\<rparr>
        else if seek s2 \<noteq> 0 then s2\<lparr>seek_records := seek s2\<rparr>
        else s2)"

text \<open>The partial-read warning and the choice of the read function (lines 350 to 359).\<close>

definition resolve_reader :: "externs \<Rightarrow> dd_state \<Rightarrow> dd_state" where
  "resolve_reader e s =
    (let s1 = s\<lparr>warn_partial_read :=
                  (\<not> (conversions_mask s AND C_TWOBUFS \<noteq> 0)
                   \<and> \<not> (input_flags s AND O_FULLBLOCK e \<noteq> 0)
                   \<and> (skip_records s \<noteq> 0
                        \<or> (0 < max_records s \<and> max_records s < - 1)
                        \<or> (input_flags s OR output_flags s) AND O_DIRECT e \<noteq> 0))\<rparr>;
         s2 = s1\<lparr>iread_fnc := (if input_flags s1 AND O_FULLBLOCK e \<noteq> 0
                                 then iread_fullblock else iread)\<rparr>
     in s2\<lparr>input_flags := input_flags s2 AND NOT (O_FULLBLOCK e)\<rparr>)"

text \<open>The exclusivity checks (lines 361 to 371); \<open>error (EXIT_FAILURE, ...)\<close> exits.\<close>

definition check_exclusive :: "externs \<Rightarrow> dd_state \<Rightarrow> outcome" where
  "check_exclusive e s =
    and_then
      (if multiple_bits_set (conversions_mask s AND (C_ASCII OR C_EBCDIC OR C_IBM))
       then error EXIT_FAILURE No_errno ''cannot combine any two of {ascii,ebcdic,ibm}'' s
       else Return s)
      (\<lambda>s1. and_then
         (if multiple_bits_set (conversions_mask s1 AND (C_BLOCK OR C_UNBLOCK))
          then error EXIT_FAILURE No_errno ''cannot combine block and unblock'' s1
          else Return s1)
         (\<lambda>s2. and_then
            (if multiple_bits_set (conversions_mask s2 AND (C_LCASE OR C_UCASE))
             then error EXIT_FAILURE No_errno ''cannot combine lcase and ucase'' s2
             else Return s2)
            (\<lambda>s3. and_then
               (if multiple_bits_set (conversions_mask s3 AND (C_EXCL OR C_NOCREAT))
                then error EXIT_FAILURE No_errno ''cannot combine excl and nocreat'' s3
                else Return s3)
               (\<lambda>s4. if multiple_bits_set (input_flags s4 AND (O_DIRECT e OR O_NOCACHE e))
                         \<or> multiple_bits_set (output_flags s4 AND (O_DIRECT e OR O_NOCACHE e))
                      then error EXIT_FAILURE No_errno ''cannot combine direct and nocache'' s4
                      else Return s4))))"

text \<open>The cache flags become booleans (lines 373 to 382).\<close>

definition resolve_nocache :: "externs \<Rightarrow> dd_state \<Rightarrow> dd_state" where
  "resolve_nocache e s =
    (let s1 = (if input_flags s AND O_NOCACHE e \<noteq> 0
               then s\<lparr>i_nocache := True, input_flags := input_flags s AND NOT (O_NOCACHE e)\<rparr>
               else s)
     in if output_flags s1 AND O_NOCACHE e \<noteq> 0
        then s1\<lparr>o_nocache := True, output_flags := output_flags s1 AND NOT (O_NOCACHE e)\<rparr>
        else s1)"

text \<open>The resolver up to the exclusivity checks (lines 283 to 359).\<close>

definition resolve_fields :: "externs \<Rightarrow> dd_state \<Rightarrow> outcome" where
  "resolve_fields e s =
    and_then (check_misplaced e (resolve_rsync e (resolve_blocksizes s)))
      (\<lambda>s1. Return (resolve_reader e (resolve_offsets e s1)))"

text \<open>Everything after the loop (lines 283 to 382).\<close>

definition resolve :: "externs \<Rightarrow> dd_state \<Rightarrow> outcome" where
  "resolve e s =
    and_then (resolve_fields e s)
      (\<lambda>s2. and_then (check_exclusive e s2) (\<lambda>s3. Return (resolve_nocache e s3)))"

text \<open>The first part of \<open>scanargs\<close>: the locals are initialised and the loop runs over
  \<open>argv[optind..]\<close>; \<open>argc\<close> is the length of \<open>argv\<close>.\<close>

definition operand_pass :: "externs \<Rightarrow> nat \<Rightarrow> string list \<Rightarrow> dd_state \<Rightarrow> outcome" where
  "operand_pass e optind argv s =
    scan_operands e (drop optind argv)
      (s\<lparr>blocksize := 0, count := - 1, skip := 0, seek := 0\<rparr>)"

text \<open>\<open>scanargs\<close>: the operand pass, then the resolver.\<close>

definition scanargs :: "externs \<Rightarrow> nat \<Rightarrow> string list \<Rightarrow> dd_state \<Rightarrow> outcome" where
  "scanargs e optind argv s = and_then (operand_pass e optind argv s) (resolve e)"

subsection \<open>\<open>main\<close>\<close>

text \<open>
  \<open>getopt_long\<close> belongs to the C library. This is its first call with the empty option
  string and no long options, as its manual describes it: an argument is an option element
  when it starts with \<open>-\<close> and is longer than that; \<open>--\<close> ends the options and is skipped;
  unless \<open>POSIXLY_CORRECT\<close> is set, operands before the first option element are passed
  over and moved behind it. The result is \<open>-1\<close> when there is no option left and \<open>'?'\<close>
  (63) for an option that the option string does not have, which here is every option.
  For such an option it writes \<open>argv[0]: invalid option -- 'c'\<close> to standard error, \<open>c\<close>
  being the first character after the \<open>-\<close>. The model returns the result, \<open>optind\<close>, the
  argument vector after the call and what the call wrote.
\<close>

definition is_option_element :: "string \<Rightarrow> bool" where
  "is_option_element a = (case a of c # d # _ \<Rightarrow> c = CHR ''-'' | _ \<Rightarrow> False)"

definition getopt_long ::
  "bool \<Rightarrow> string list \<Rightarrow> int \<times> nat \<times> string list \<times> output_line list" where
  "getopt_long posixly_correct argv =
    (let passed = (if posixly_correct then []
                   else takeWhile (\<lambda>a. \<not> is_option_element a) (drop 1 argv))
     in case drop (1 + length passed) argv of
          [] \<Rightarrow> (- 1, 1, argv, [])
        | a # rest \<Rightarrow>
            if a = ''--'' then (- 1, 2, take 1 argv @ a # passed @ rest, [])
            else if is_option_element a
            then (63, 1 + length passed + (if length a = 2 then 1 else 0), argv,
                  [Stderr (concat (take 1 argv) @ '': invalid option -- '' @ [CHR 0x27]
                           @ take 1 (drop 1 a) @ [CHR 0x27])])
            else (- 1, 1, argv, []))"

text \<open>\<open>main\<close>, started with the file-scope variables as in \<open>s\<close>. Returning from \<open>main\<close>
  ends the process with the returned status. The page size that \<open>main\<close> stores is used
  by nothing in the source.\<close>

definition main :: "externs \<Rightarrow> bool \<Rightarrow> string list \<Rightarrow> dd_state \<Rightarrow> outcome" where
  "main e posixly_correct argv s =
    (let s1 = s\<lparr>transcript := transcript s @ [Stdout ''Hello!'']\<rparr>;
         (r, optind, argv1, written) = getopt_long posixly_correct argv;
         s2 = s1\<lparr>transcript := transcript s1 @ written\<rparr>
     in if r \<noteq> 0
        then Exit EXIT_FAILURE
               (transcript s2 @ [Stdout ''Incorrect Options! Do not use GNU style options''])
        else and_then (scanargs e optind argv1 s2) (\<lambda>s3. Exit EXIT_SUCCESS (transcript s3)))"

subsection \<open>An instance of the parameters\<close>

text \<open>Modelled from the spec: \<open>parse_symbols\<close> is not defined in the source. Section 4.2:
  the value is split on commas, an empty token is rejected, each token is resolved by
  whole-name match against the table, an unmatched token fails with the caller's diagnostic
  and the quoted token, an exclusive value must be exactly one token, and the result is
  the bitwise OR of the matched values. A table ends at its entry with the empty name.\<close>

fun split_commas :: "string \<Rightarrow> string list" where
  "split_commas [] = [[]]"
| "split_commas (c # cs) =
    (if c = CHR '','' then [] # split_commas cs
     else (case split_commas cs of [] \<Rightarrow> [[c]] | t # ts \<Rightarrow> (c # t) # ts))"

fun lookup_symbol :: "symbol_value list \<Rightarrow> string \<Rightarrow> cint option" where
  "lookup_symbol [] t = None"
| "lookup_symbol ((n, v) # tbl) t =
    (if n = [] then None else if n = t then Some v else lookup_symbol tbl t)"

definition quote_spec :: "string \<Rightarrow> string" where
  "quote_spec t = [CHR 0x27] @ t @ [CHR 0x27]"

fun resolve_tokens :: "symbol_value list \<Rightarrow> string \<Rightarrow> string list \<Rightarrow> output_line + cint" where
  "resolve_tokens tbl msg [] = Inr 0"
| "resolve_tokens tbl msg (t # ts) =
    (case lookup_symbol tbl t of
       None \<Rightarrow> Inl (Diagnostic No_errno (msg @ '': '' @ quote_spec t))
     | Some v \<Rightarrow>
         (case resolve_tokens tbl msg ts of Inl d \<Rightarrow> Inl d | Inr m \<Rightarrow> Inr (v OR m)))"

definition parse_symbols_spec ::
  "string \<Rightarrow> symbol_value list \<Rightarrow> bool \<Rightarrow> string \<Rightarrow> output_line + cint" where
  "parse_symbols_spec val tbl exclusive msg =
    (let ts = split_commas val
     in if exclusive \<and> length ts \<noteq> 1
        then Inl (Diagnostic No_errno (msg @ '': '' @ quote_spec val))
        else resolve_tokens tbl msg ts)"

text \<open>Modelled from the spec: \<open>parse_integer\<close> is not defined in the source. Section 4.3:
  an unsigned decimal, then an optional suffix multiplier, then optionally \<open>x\<close>, \<open>X\<close> or
  \<open>*\<close> and a second integer with its own suffix; the result is the product, and a product
  that does not fit the widest unsigned type is reported as overflow. The products are
  formed in the natural numbers, so that the multipliers of \<open>Z\<close> and \<open>Y\<close>, which exceed 64
  bits, overflow for every number but 0.\<close>

definition is_digit :: "char \<Rightarrow> bool" where
  "is_digit c = ((48::nat) \<le> of_char c \<and> of_char c \<le> (57::nat))"

definition decimal :: "string \<Rightarrow> nat" where
  "decimal ds = foldl (\<lambda>acc c. 10 * acc + (of_char c - (48::nat))) 0 ds"

definition suffixes :: "(string \<times> nat) list" where
  "suffixes =
    [(''kB'', 1000), (''MB'', 1000000), (''GB'', 1000000000), (''TB'', 1000000000000),
     (''PB'', 1000000000000000), (''EB'', 1000000000000000000),
     (''ZB'', 1000000000000000000000), (''YB'', 1000000000000000000000000),
     (''c'', 1), (''w'', 2), (''b'', 512), (''K'', 1024), (''M'', 1048576),
     (''G'', 1073741824), (''T'', 1099511627776), (''P'', 1125899906842624),
     (''E'', 1152921504606846976), (''Z'', 1180591620717411303424),
     (''Y'', 1208925819614629174706176)]"

fun strip_suffix :: "(string \<times> nat) list \<Rightarrow> string \<Rightarrow> nat \<times> string" where
  "strip_suffix [] r = (1, r)"
| "strip_suffix ((sfx, m) # tbl) r =
    (if take (length sfx) r = sfx then (m, drop (length sfx) r) else strip_suffix tbl r)"

definition parse_factor :: "string \<Rightarrow> (nat \<times> string) option" where
  "parse_factor str =
    (let ds = takeWhile is_digit str
     in if ds = [] then None
        else (let (m, r) = strip_suffix suffixes (dropWhile is_digit str)
              in Some (decimal ds * m, r)))"

definition parse_integer_spec :: "string \<Rightarrow> uintmax \<times> strtol_error" where
  "parse_integer_spec str =
    (let fits = (\<lambda>n. if n < 2 ^ 64 then (of_nat n, LONGINT_OK) else (0, LONGINT_OVERFLOW))
     in case parse_factor str of
          None \<Rightarrow> (0, LONGINT_INVALID)
        | Some (a, r) \<Rightarrow>
            (case r of
               [] \<Rightarrow> fits a
             | c # r1 \<Rightarrow>
                 if c = CHR ''x'' \<or> c = CHR ''X'' \<or> c = CHR ''*''
                 then (case parse_factor r1 of
                         Some (b, []) \<Rightarrow> fits (a * b)
                       | _ \<Rightarrow> (0, LONGINT_INVALID))
                 else (0, LONGINT_INVALID)))"

text \<open>Modelled from the spec: the table \<open>flags\<close> is not defined in the source. It has
  the fourteen names of section 4.2 in their order; the bit of each name is a
  parameter.\<close>

definition flags_spec :: "externs \<Rightarrow> symbol_value list" where
  "flags_spec e =
    [(''append'', O_APPEND e), (''direct'', O_DIRECT e), (''directory'', O_DIRECTORY e),
     (''dsync'', O_DSYNC e), (''sync'', O_SYNC e), (''fullblock'', O_FULLBLOCK e),
     (''nonblock'', O_NONBLOCK e), (''noatime'', O_NOATIME e), (''nocache'', O_NOCACHE e),
     (''noctty'', O_NOCTTY e), (''nofollow'', O_NOFOLLOW e),
     (''count_bytes'', O_COUNT_BYTES e), (''skip_bytes'', O_SKIP_BYTES e),
     (''seek_bytes'', O_SEEK_BYTES e), ('''', 0)]"

text \<open>Modelled from the spec: the values of the flag bits and of the statuses, the
  block-size bound and \<open>quote\<close> are not defined in the source, and the spec names them
  without values. This instance, on which the model is run at concrete arguments, takes
  the parsers above, quotes in single quotes as the diagnostics of section 6 do, gives
  every flag a bit of its own (\<open>O_SYNC\<close> and \<open>O_RSYNC\<close> share theirs and contain that of
  \<open>O_DSYNC\<close>), and bounds a block size by \<open>2^63 - 1\<close> less the slop. The general
  properties below hold for every value of the parameters.\<close>

definition sample_bits :: externs where
  "sample_bits =
    \<lparr>parse_symbols = parse_symbols_spec, parse_integer = parse_integer_spec,
     flags = [], statuses = [(''none'', 1), (''noxfer'', 2), (''progress'', 4), ('''', 0)],
     quote = quote_spec,
     MAX_BLOCKSIZE = (\<lambda>slop. 9223372036854775807 - slop),
     INPUT_BLOCK_SLOP = 8193, OUTPUT_BLOCK_SLOP = 4095,
     O_DSYNC = 4096, O_SYNC = 1052672, O_RSYNC = 1052672, O_DIRECT = 16384,
     O_NOCACHE = 8388608, O_FULLBLOCK = 16777216, O_COUNT_BYTES = 33554432,
     O_SKIP_BYTES = 67108864, O_SEEK_BYTES = 134217728,
     O_APPEND = 1024, O_DIRECTORY = 65536, O_NONBLOCK = 2048, O_NOATIME = 262144,
     O_NOCTTY = 256, O_NOFOLLOW = 131072\<rparr>"

definition sample :: externs where
  "sample = sample_bits\<lparr>flags := flags_spec sample_bits\<rparr>"

text \<open>Modelled from the spec: the file-scope variables other than \<open>input_file\<close> and
  \<open>output_file\<close> are not declared in the source. At program start the two file names are
  \<open>NULL\<close>, as the source initialises them; section 3 gives 0 or the empty set as the
  default of every other raw field; the derived fields start at 0 as C's static storage
  does, and \<open>max_records\<close> at the sentinel for "unset". The locals of \<open>scanargs\<close> are set
  when it is entered.\<close>

definition initial_state :: dd_state where
  "initial_state =
    \<lparr>input_file = None, output_file = None, conversions_mask = 0, input_flags = 0,
     output_flags = 0, status_level = 0, input_blocksize = 0, output_blocksize = 0,
     conversion_blocksize = 0, skip_records = 0, skip_bytes = 0, max_records = - 1,
     max_bytes = 0, seek_records = 0, seek_bytes = 0, warn_partial_read = False,
     iread_fnc = iread, i_nocache = False, o_nocache = False,
     blocksize = 0, count = 0, skip = 0, seek = 0, transcript = []\<rparr>"


subsection \<open>Notions for stating the properties\<close>

text \<open>The key of an operand is what precedes its first \<open>=\<close>, its value is what follows
  it; the operand that sets a name is the last argument of that name.\<close>

definition operand_key :: "string \<Rightarrow> string" where
  "operand_key a = takeWhile (\<lambda>c. c \<noteq> CHR ''='') a"

definition operand_value :: "string \<Rightarrow> string" where
  "operand_value a = (case strchr a (CHR ''='') of None \<Rightarrow> [] | Some v \<Rightarrow> tl v)"

definition last_operand :: "string \<Rightarrow> string list \<Rightarrow> string option" where
  "last_operand name args =
    (case filter (\<lambda>a. operand_is a name) args of
       [] \<Rightarrow> None
     | x # xs \<Rightarrow> Some (operand_value (last (x # xs))))"

text \<open>The number of bits that are set in a mask.\<close>

definition bits_set :: "cint \<Rightarrow> nat" where
  "bits_set w = length (filter (bit w) [0..<32])"

definition at_most_one_bit :: "cint \<Rightarrow> bool" where
  "at_most_one_bit w = (bits_set w \<le> 1)"

text \<open>The operand names that \<open>scanargs\<close> knows, and the raw field that each one sets.\<close>

datatype operand =
  Op_if | Op_of | Op_conv | Op_iflag | Op_oflag | Op_status
  | Op_ibs | Op_obs | Op_bs | Op_cbs | Op_skip | Op_seek | Op_count

fun operand_name :: "operand \<Rightarrow> string" where
  "operand_name Op_if = ''if''"
| "operand_name Op_of = ''of''"
| "operand_name Op_conv = ''conv''"
| "operand_name Op_iflag = ''iflag''"
| "operand_name Op_oflag = ''oflag''"
| "operand_name Op_status = ''status''"
| "operand_name Op_ibs = ''ibs''"
| "operand_name Op_obs = ''obs''"
| "operand_name Op_bs = ''bs''"
| "operand_name Op_cbs = ''cbs''"
| "operand_name Op_skip = ''skip''"
| "operand_name Op_seek = ''seek''"
| "operand_name Op_count = ''count''"

datatype raw_value = Path "string option" | Mask cint | Number uintmax

fun raw_field :: "operand \<Rightarrow> dd_state \<Rightarrow> raw_value" where
  "raw_field Op_if s = Path (input_file s)"
| "raw_field Op_of s = Path (output_file s)"
| "raw_field Op_conv s = Mask (conversions_mask s)"
| "raw_field Op_iflag s = Mask (input_flags s)"
| "raw_field Op_oflag s = Mask (output_flags s)"
| "raw_field Op_status s = Mask (status_level s)"
| "raw_field Op_ibs s = Number (input_blocksize s)"
| "raw_field Op_obs s = Number (output_blocksize s)"
| "raw_field Op_bs s = Number (blocksize s)"
| "raw_field Op_cbs s = Number (conversion_blocksize s)"
| "raw_field Op_skip s = Number (skip s)"
| "raw_field Op_seek s = Number (seek s)"
| "raw_field Op_count s = Number (count s)"

text \<open>The operands whose values are bit sets that the loop collects with \<open>|=\<close>.\<close>

definition accumulates :: "operand \<Rightarrow> bool" where
  "accumulates op = (op = Op_conv \<or> op = Op_iflag \<or> op = Op_oflag)"

fun raw_or :: "raw_value \<Rightarrow> raw_value \<Rightarrow> raw_value" where
  "raw_or (Mask a) (Mask b) = Mask (a OR b)"
| "raw_or a b = b"

text \<open>A field of the state that a function returned, if it returned.\<close>

fun field_of :: "(dd_state \<Rightarrow> 'a) \<Rightarrow> outcome \<Rightarrow> 'a option" where
  "field_of f (Return s) = Some (f s)"
| "field_of f (Exit n out) = None"
| "field_of f (Undefined_behaviour out) = None"


text \<open>The operands whose value is a number, and those whose lower bound is 1.\<close>

definition is_number :: "operand \<Rightarrow> bool" where
  "is_number op = (op \<in> {Op_ibs, Op_obs, Op_bs, Op_cbs, Op_skip, Op_seek, Op_count})"

definition is_blocksize :: "operand \<Rightarrow> bool" where
  "is_blocksize op = (op \<in> {Op_ibs, Op_obs, Op_bs, Op_cbs})"

text \<open>What the value \<open>val\<close> of an operand contributes to the raw field of its name:
  the path, the parsed number, or the mask of the parsed symbols.\<close>

definition operand_result :: "externs \<Rightarrow> operand \<Rightarrow> string \<Rightarrow> raw_value" where
  "operand_result e op val =
    (case op of
       Op_if \<Rightarrow> Path (Some val)
     | Op_of \<Rightarrow> Path (Some val)
     | Op_conv \<Rightarrow>
         (case parse_symbols e val conversions False ''invalid conversion'' of
            Inl d \<Rightarrow> Mask 0 | Inr m \<Rightarrow> Mask m)
     | Op_iflag \<Rightarrow>
         (case parse_symbols e val (flags e) False ''invalid input flag'' of
            Inl d \<Rightarrow> Mask 0 | Inr m \<Rightarrow> Mask m)
     | Op_oflag \<Rightarrow>
         (case parse_symbols e val (flags e) False ''invalid output flag'' of
            Inl d \<Rightarrow> Mask 0 | Inr m \<Rightarrow> Mask m)
     | Op_status \<Rightarrow>
         (case parse_symbols e val (statuses e) True ''invalid status level'' of
            Inl d \<Rightarrow> Mask 0 | Inr m \<Rightarrow> Mask m)
     | _ \<Rightarrow> Number (fst (parse_integer e val)))"

text \<open>The argument vector without the operands of a name, and a result with its
  \<open>count\<close> replaced.\<close>

definition omit_operands :: "string \<Rightarrow> nat \<Rightarrow> string list \<Rightarrow> string list" where
  "omit_operands name optind argv =
    take optind argv @ filter (\<lambda>a. \<not> operand_is a name) (drop optind argv)"

fun with_count :: "uintmax \<Rightarrow> outcome \<Rightarrow> outcome" where
  "with_count c (Return s) = Return (s\<lparr>count := c\<rparr>)"
| "with_count c (Exit n out) = Exit n out"
| "with_count c (Undefined_behaviour out) = Undefined_behaviour out"

section \<open>Properties\<close>

subsection \<open>Unfolding the definitions\<close>

lemmas c_defs = C_ASCII_def C_EBCDIC_def C_IBM_def C_BLOCK_def C_UNBLOCK_def C_LCASE_def
  C_UCASE_def C_SWAB_def C_NOERROR_def C_NOTRUNC_def C_SYNC_def C_TWOBUFS_def C_NOCREAT_def
  C_EXCL_def C_FDATASYNC_def C_FSYNC_def C_SPARSE_def

lemmas sample_defs = sample_def sample_bits_def flags_spec_def parse_symbols_spec_def
  quote_spec_def conversions_def parse_integer_spec_def parse_factor_def is_digit_def
  decimal_def suffixes_def initial_state_def

lemmas scan_defs = scanargs_def operand_pass_def scan_operand_def scan_number_def
  operand_is_def error_def usage_def EXIT_SUCCESS_def EXIT_FAILURE_def UINTMAX_MAX_def
  SIZE_MAX_def

lemmas resolve_defs = resolve_def resolve_fields_def resolve_blocksizes_def resolve_rsync_def
  check_misplaced_def resolve_offsets_def resolve_reader_def check_exclusive_def
  resolve_nocache_def multiple_bits_set_def DEFAULT_BLOCKSIZE_def

lemmas run_defs = scan_defs resolve_defs sample_defs c_defs

lemmas operand_defs = last_operand_def operand_value_def operand_is_def

subsection \<open>The option check of \<open>main\<close>\<close>

text \<open>\<open>getopt_long\<close> never returns 0 here: it returns \<open>-1\<close> at the end of the options and
  \<open>'?'\<close> for an option. The test \<open>if (getopt_long (...))\<close> of \<open>main\<close> is therefore
  always true.\<close>

lemma getopt_long_nonzero: "fst (getopt_long posixly_correct argv) \<noteq> 0"
  by (simp add: getopt_long_def Let_def split: list.split)

lemma main_always_fails:
  "main e posixly_correct argv s =
    Exit EXIT_FAILURE
      (transcript s @ [Stdout ''Hello!''] @ snd (snd (snd (getopt_long posixly_correct argv)))
       @ [Stdout ''Incorrect Options! Do not use GNU style options''])"
  using getopt_long_nonzero [of posixly_correct argv]
  by (auto simp: main_def Let_def split: prod.split)

text \<open>
  Claim C1. An invocation whose arguments are only \<open>key=value\<close> operands passes the option
  check and reaches \<open>scanargs\<close>. The code does not do this: for \<open>dd if=a\<close> the result of
  \<open>getopt_long\<close> is \<open>-1\<close>, which the test takes as true, and \<open>main\<close> writes
  "Incorrect Options!" and returns \<open>EXIT_FAILURE\<close> without calling \<open>scanargs\<close>.
\<close>

theorem main_rejects_operands:
  "main sample False [''dd'', ''if=a''] initial_state =
    Exit EXIT_FAILURE
      [Stdout ''Hello!'', Stdout ''Incorrect Options! Do not use GNU style options'']"
  by (simp add: main_always_fails initial_state_def getopt_long_def is_option_element_def)

subsection \<open>Errors that are reported through \<open>usage\<close>\<close>

text \<open>
  Claim C2. Every configuration error ends the program with a nonzero status before any
  further processing. The code does not do this for the errors that are reported with
  \<open>error (0, ...)\<close> followed by \<open>usage (EXIT_FAILURE)\<close>: \<open>usage\<close> calls \<open>exit\<close> only when its
  argument is \<open>EXIT_SUCCESS\<close>, so for \<open>dd oflag=fullblock\<close> the resolver writes the
  diagnostic, goes on to the end and \<open>scanargs\<close> returns to its caller with a plan.
\<close>

theorem misplaced_flag_not_fatal:
  "scanargs sample 1 [''dd'', ''oflag=fullblock''] initial_state =
    Return (initial_state
      \<lparr>conversions_mask := C_TWOBUFS, output_flags := O_FULLBLOCK sample,
       input_blocksize := 512, output_blocksize := 512, count := - 1,
       transcript :=
         [Diagnostic No_errno (''invalid output flag: '' @ quote sample ''fullblock''),
          Stderr ''Try 'dd --help' for more information.'']\<rparr>)"
  by (simp add: scan_defs resolve_defs sample_defs c_defs)

subsection \<open>Sequencing, \<open>error\<close> and \<open>usage\<close>\<close>

lemma and_then_Return_iff:
  "and_then m f = Return p \<longleftrightarrow> (\<exists>s. m = Return s \<and> f s = Return p)"
  by (cases m) auto

lemma and_then_assoc:
  "and_then (and_then m f) g = and_then m (\<lambda>s. and_then (f s) g)"
  by (cases m) simp_all

text \<open>\<open>usage\<close> returns when it is called with \<open>EXIT_FAILURE\<close>; \<open>error\<close> returns when its
  status is 0 and exits otherwise.\<close>

lemma usage_failure: "usage EXIT_FAILURE s =
    Return (s\<lparr>transcript := transcript s @ [Stderr ''Try 'dd --help' for more information.'']\<rparr>)"
  by (simp add: usage_def EXIT_FAILURE_def EXIT_SUCCESS_def)

lemma error_0: "error 0 en msg s = Return (s\<lparr>transcript := transcript s @ [Diagnostic en msg]\<rparr>)"
  by (simp add: error_def)

lemma error_failure: "error EXIT_FAILURE en msg s = Exit EXIT_FAILURE (transcript s @ [Diagnostic en msg])"
  by (simp add: error_def EXIT_FAILURE_def)

subsection \<open>Operand names\<close>

text \<open>For an argument that has an \<open>=\<close>, \<open>operand_is\<close> compares the key with the name.\<close>

lemma strchr_None_iff: "strchr x c = None \<longleftrightarrow> c \<notin> set x"
  by (induction x) auto

lemma strchr_Some: "strchr x c = Some v \<Longrightarrow> c \<in> set x \<and> v = dropWhile (\<lambda>a. a \<noteq> c) x"
  by (induction x) (auto split: if_splits)

lemma operand_matches_key:
  "CHR ''='' \<notin> set n \<Longrightarrow> CHR ''='' \<in> set x \<Longrightarrow>
    operand_matches x n (CHR ''='') = (takeWhile (\<lambda>c. c \<noteq> CHR ''='') x = n)"
  by (induction x n "CHR ''=''" rule: operand_matches.induct) (auto split: list.splits)

lemma operand_is_key:
  "CHR ''='' \<notin> set n \<Longrightarrow> CHR ''='' \<in> set x \<Longrightarrow> operand_is x n = (operand_key x = n)"
  by (simp add: operand_is_def operand_key_def operand_matches_key)

lemma key_cases:
  obtains (known) op where "operand_key x = operand_name op"
  | (unknown) "operand_key x \<notin> {''if'', ''of'', ''conv'', ''iflag'', ''oflag'', ''status'',
      ''ibs'', ''obs'', ''bs'', ''cbs'', ''skip'', ''seek'', ''count''}"
proof (cases "operand_key x \<in> {''if'', ''of'', ''conv'', ''iflag'', ''oflag'', ''status'',
      ''ibs'', ''obs'', ''bs'', ''cbs'', ''skip'', ''seek'', ''count''}")
  case True
  then have "\<exists>op. operand_key x = operand_name op"
    by (metis insertE emptyE operand_name.simps)
  then show thesis using known by blast
next
  case False
  then show thesis by (rule unknown)
qed

subsection \<open>One turn of the loop\<close>

lemma scan_operand_no_equals:
  "CHR ''='' \<notin> set x \<Longrightarrow> scan_operand e x s \<noteq> Return s'"
  by (simp add: scan_operand_def strchr_None_iff [THEN iffD2] error_0 usage_failure)

lemma step_value:
  assumes "scan_operand e x s = Return s'"
  obtains v where "strchr x (CHR ''='') = Some v" "CHR ''='' \<in> set x" "operand_value x = tl v"
proof -
  have eq: "CHR ''='' \<in> set x"
    using assms scan_operand_no_equals by blast
  then obtain v where v: "strchr x (CHR ''='') = Some v"
    using strchr_None_iff [of x "CHR ''=''"] by (cases "strchr x (CHR ''='')") auto
  then have "operand_value x = tl v" by (simp add: operand_value_def)
  with eq v that show thesis by blast
qed

text \<open>An operand leaves the raw fields of the other names as they are, and the derived
  fields too.\<close>

lemma step_frame:
  assumes "scan_operand e x s = Return s'" "\<not> operand_is x (operand_name op)"
  shows "raw_field op s' = raw_field op s"
proof -
  have eq: "CHR ''='' \<in> set x"
    using assms(1) scan_operand_no_equals by blast
  then obtain v where v: "strchr x (CHR ''='') = Some v"
    using strchr_None_iff [of x "CHR ''=''"] by (cases "strchr x (CHR ''='')") auto
  show ?thesis
    using assms eq
    by (cases op)
      (auto simp: scan_operand_def scan_number_def v operand_is_key error_0 usage_failure
          error_failure Let_def
        split: if_splits sum.splits prod.splits)
qed

lemma step_derived:
  assumes "scan_operand e x s = Return s'"
  shows "skip_records s' = skip_records s \<and> skip_bytes s' = skip_bytes s
    \<and> max_records s' = max_records s \<and> max_bytes s' = max_bytes s"
proof -
  from assms obtain v where v: "strchr x (CHR ''='') = Some v"
    by (rule step_value)
  show ?thesis
    using assms
    by (auto simp: scan_operand_def scan_number_def v error_0 usage_failure
          error_failure Let_def
        split: if_splits sum.splits prod.splits)
qed

text \<open>What an accepted operand stores, and that its acceptance does not depend on the
  state.\<close>

lemma step_result:
  assumes "scan_operand e x s = Return s'" "operand_is x (operand_name op)"
  shows "raw_field op s' =
    (if accumulates op then raw_or (raw_field op s) (operand_result e op (operand_value x))
     else operand_result e op (operand_value x))"
proof -
  from assms(1) obtain v where v: "strchr x (CHR ''='') = Some v" "CHR ''='' \<in> set x"
    "operand_value x = tl v" by (rule step_value)
  have key: "operand_key x = operand_name op"
    using assms(2) v(2) by (cases op) (simp_all add: operand_is_key)
  show ?thesis
    using assms(1) v(2) key
    by (cases op)
      (auto simp: scan_operand_def scan_number_def v(1,3) operand_is_key error_def
          Let_def accumulates_def operand_result_def
        split: if_splits sum.splits prod.splits)
qed

lemma accumulates_result:
  "accumulates op \<Longrightarrow> \<exists>m. operand_result e op val = Mask m"
  by (auto simp: accumulates_def operand_result_def split: sum.splits)

lemma accumulates_field: "accumulates op \<Longrightarrow> \<exists>m. raw_field op s = Mask m"
  by (auto simp: accumulates_def)

lemma step_number:
  assumes "scan_operand e x s = Return s'" "operand_is x (operand_name op)" "is_number op"
  shows "raw_field op s' = Number (fst (parse_integer e (operand_value x)))"
proof -
  from assms(1) obtain v where v: "strchr x (CHR ''='') = Some v" "CHR ''='' \<in> set x"
    "operand_value x = tl v" by (rule step_value)
  show ?thesis
    using assms v(2)
    by (cases op)
      (auto simp: scan_operand_def scan_number_def v(1,3) operand_is_key error_0 usage_failure
          error_failure Let_def is_number_def
        split: if_splits sum.splits prod.splits)
qed

lemma step_positive:
  assumes "scan_operand e x s = Return s'" "operand_is x (operand_name op)" "is_blocksize op"
  shows "fst (parse_integer e (operand_value x)) \<noteq> 0"
proof -
  from assms(1) obtain v where v: "strchr x (CHR ''='') = Some v" "CHR ''='' \<in> set x"
    "operand_value x = tl v" by (rule step_value)
  show ?thesis
    using assms v(2)
    by (cases op)
      (auto simp: scan_operand_def scan_number_def v(1,3) operand_is_key error_0 usage_failure
          error_failure Let_def is_blocksize_def
        split: if_splits sum.splits prod.splits)
qed

lemma step_returns_anywhere:
  assumes "scan_operand e x s = Return s'"
  shows "\<exists>t'. scan_operand e x t = Return t'"
proof -
  from assms obtain v where v: "strchr x (CHR ''='') = Some v" "CHR ''='' \<in> set x"
    by (rule step_value)
  show ?thesis
  proof (cases x rule: key_cases)
    case (known op)
    show ?thesis
      using assms v(2) known
      by (cases op)
        (auto simp: scan_operand_def scan_number_def v(1) operand_is_key error_def
           Let_def split: sum.splits prod.splits if_splits)
  next
    case unknown
    show ?thesis
      using assms v(2) unknown
      by (auto simp: scan_operand_def scan_number_def v(1) operand_is_key error_def
           usage_failure Let_def split: prod.splits if_splits)
  qed
qed

text \<open>The bound 1 of the block sizes.\<close>

lemma word_one_le_iff: "1 \<le> w \<longleftrightarrow> w \<noteq> 0" for w :: "'a::len word"
  using word_less_1 [of w] by (auto simp: not_less [symmetric])

lemma blocksize_zero_rejected:
  assumes "CHR ''='' \<in> set x" "operand_is x (operand_name op)" "is_blocksize op"
    "fst (parse_integer e (operand_value x)) = 0"
  shows "scan_operand e x t =
    Exit EXIT_FAILURE
      (transcript t @ [Diagnostic No_errno (''invalid number: '' @ quote e (operand_value x))])"
proof -
  from assms(1) obtain v where v: "strchr x (CHR ''='') = Some v"
    using strchr_None_iff [of x "CHR ''=''"] by (cases "strchr x (CHR ''='')") auto
  then have val: "operand_value x = tl v" by (simp add: operand_value_def)
  show ?thesis
    using assms
    by (cases op)
      (auto simp: scan_operand_def scan_number_def v val operand_is_key error_failure
          Let_def is_blocksize_def
        split: prod.splits)
qed

lemma cbs_accepted:
  assumes "CHR ''='' \<in> set x" "operand_is x ''cbs''"
    "parse_integer e (operand_value x) = (n, LONGINT_OK)" "1 \<le> n"
  shows "scan_operand e x t = Return (t\<lparr>conversion_blocksize := n\<rparr>)"
proof -
  from assms(1) obtain v where v: "strchr x (CHR ''='') = Some v"
    using strchr_None_iff [of x "CHR ''=''"] by (cases "strchr x (CHR ''='')") auto
  then have val: "operand_value x = tl v" by (simp add: operand_value_def)
  have n: "\<not> n < 1" using assms(4) by (simp add: word_one_le_iff)
  have top: "\<not> SIZE_MAX < n" by (simp add: SIZE_MAX_def not_less)
  show ?thesis
    using assms(1-3) n top
    by (simp add: scan_operand_def scan_number_def v val [symmetric] operand_is_key Let_def)
qed

lemma count_max_step:
  assumes "parse_integer e v = (UINTMAX_MAX, LONGINT_OK)"
  shows "scan_operand e (''count='' @ v) t = Return (t\<lparr>count := - 1\<rparr>)"
  using assms
  by (simp add: scan_operand_def scan_number_def operand_is_def UINTMAX_MAX_def)

text \<open>A \<open>count\<close> operand is accepted exactly when the integer parser accepts its value,
  and it changes \<open>count\<close> only; the other operands do not read \<open>count\<close>.\<close>

lemma count_step:
  assumes "operand_is x ''count''" "CHR ''='' \<in> set x"
    "snd (parse_integer e (operand_value x)) = LONGINT_OK"
  shows "scan_operand e x s = Return (s\<lparr>count := fst (parse_integer e (operand_value x))\<rparr>)"
proof -
  from assms(2) obtain v where v: "strchr x (CHR ''='') = Some v"
    using strchr_None_iff [of x "CHR ''=''"] by (cases "strchr x (CHR ''='')") auto
  then have val: "operand_value x = tl v" by (simp add: operand_value_def)
  have key: "operand_key x = ''count''"
    using assms(1,2) by (simp add: operand_is_key)
  show ?thesis
    using assms(2,3) key
    by (auto simp: scan_operand_def scan_number_def v val [symmetric] operand_is_key Let_def
        UINTMAX_MAX_def not_less split: prod.splits)
qed

lemma count_step_accepted:
  assumes "scan_operand e x s = Return s'" "operand_is x ''count''"
  shows "CHR ''='' \<in> set x \<and> snd (parse_integer e (operand_value x)) = LONGINT_OK"
proof -
  from assms(1) obtain v where v: "strchr x (CHR ''='') = Some v" "CHR ''='' \<in> set x"
    "operand_value x = tl v" by (rule step_value)
  have key: "operand_key x = ''count''"
    using assms(2) v(2) by (simp add: operand_is_key)
  show ?thesis
    using assms(1) v(2) key
    by (auto simp: scan_operand_def scan_number_def v(1,3) operand_is_key Let_def
        error_def EXIT_FAILURE_def UINTMAX_MAX_def not_less split: prod.splits if_splits)
qed

lemma step_with_count:
  assumes "\<not> operand_is x ''count''"
  shows "scan_operand e x (s\<lparr>count := c\<rparr>) = with_count c (scan_operand e x s)"
proof (cases "CHR ''='' \<in> set x")
  case False
  then show ?thesis
    by (simp add: scan_operand_def strchr_None_iff [THEN iffD2] error_0 usage_failure)
next
  case True
  then obtain v where v: "strchr x (CHR ''='') = Some v"
    using strchr_None_iff [of x "CHR ''=''"] by (cases "strchr x (CHR ''='')") auto
  show ?thesis
  proof (cases x rule: key_cases)
    case (known op)
    show ?thesis
      using assms True known
      by (cases op)
        (auto simp: scan_operand_def scan_number_def v operand_is_key error_def
           Let_def split: sum.splits prod.splits)
  next
    case unknown
    show ?thesis
      using assms True unknown
      by (auto simp: scan_operand_def scan_number_def v operand_is_key error_def
           usage_failure Let_def split: prod.splits)
  qed
qed

subsection \<open>The loop\<close>

lemma scan_operands_append:
  "scan_operands e (xs @ ys) s = and_then (scan_operands e xs s) (scan_operands e ys)"
proof (induction xs arbitrary: s)
  case Nil
  then show ?case by simp
next
  case (Cons x xs)
  then show ?case by (cases "scan_operand e x s") simp_all
qed

lemma scan_operands_split:
  assumes "scan_operands e (pre @ x # post) s = Return r"
  obtains s1 s2 where "scan_operands e pre s = Return s1" "scan_operand e x s1 = Return s2"
    "scan_operands e post s2 = Return r"
  using assms by (auto simp: scan_operands_append and_then_Return_iff)

lemma pass_frame:
  "scan_operands e xs s = Return r \<Longrightarrow> \<forall>x\<in>set xs. \<not> operand_is x (operand_name op) \<Longrightarrow>
    raw_field op r = raw_field op s"
proof (induction xs arbitrary: s)
  case Nil
  then show ?case by simp
next
  case (Cons x xs)
  from Cons.prems(1) obtain s1 where s1: "scan_operand e x s = Return s1"
    "scan_operands e xs s1 = Return r"
    by (auto simp: and_then_Return_iff)
  have "raw_field op s1 = raw_field op s"
    using s1(1) Cons.prems(2) by (simp add: step_frame)
  moreover have "raw_field op r = raw_field op s1"
    using s1(2) Cons.prems(2) by (intro Cons.IH) simp_all
  ultimately show ?case by simp
qed

lemma pass_derived:
  "scan_operands e xs s = Return r \<Longrightarrow>
    skip_records r = skip_records s \<and> skip_bytes r = skip_bytes s
    \<and> max_records r = max_records s \<and> max_bytes r = max_bytes s"
proof (induction xs arbitrary: s)
  case Nil
  then show ?case by simp
next
  case (Cons x xs)
  from Cons.prems obtain s1 where s1: "scan_operand e x s = Return s1"
    "scan_operands e xs s1 = Return r"
    by (auto simp: and_then_Return_iff)
  show ?case
    using step_derived [OF s1(1)] Cons.IH [OF s1(2)] by simp
qed

lemma last_operand_None_iff:
  "last_operand name args = None \<longleftrightarrow> (\<forall>x\<in>set args. \<not> operand_is x name)"
proof -
  have "last_operand name args = None \<longleftrightarrow> filter (\<lambda>a. operand_is a name) args = []"
    by (simp add: last_operand_def split: list.splits)
  then show ?thesis by (simp add: filter_empty_conv)
qed

lemma last_operand_Some:
  assumes "last_operand name args = Some v"
  obtains pre x post where "args = pre @ x # post" "operand_is x name"
    "\<forall>z\<in>set post. \<not> operand_is z name" "v = operand_value x"
proof -
  from assms have ne: "filter (\<lambda>a. operand_is a name) args \<noteq> []"
    and v: "v = operand_value (last (filter (\<lambda>a. operand_is a name) args))"
    by (auto simp: last_operand_def split: list.splits)
  from ne have "\<exists>x\<in>set args. operand_is x name"
    by (simp add: filter_empty_conv)
  then have "\<exists>pre x post. args = pre @ x # post \<and> operand_is x name
      \<and> (\<forall>z\<in>set post. \<not> operand_is z name)"
    by (rule split_list_last_prop)
  then obtain pre x post where sp: "args = pre @ x # post" "operand_is x name"
    "\<forall>z\<in>set post. \<not> operand_is z name"
    by blast
  then have "filter (\<lambda>a. operand_is a name) args = filter (\<lambda>a. operand_is a name) pre @ [x]"
    by (simp add: filter_empty_conv [THEN iffD2])
  with v have "v = operand_value x" by simp
  with sp that show thesis by blast
qed

text \<open>After the loop a numeric field holds the value of the last operand of its name.\<close>

lemma pass_number:
  assumes "scan_operands e args s = Return r" "is_number op"
  shows "raw_field op r =
    (case last_operand (operand_name op) args of
       None \<Rightarrow> raw_field op s
     | Some v \<Rightarrow> Number (fst (parse_integer e v)))"
proof (cases "last_operand (operand_name op) args")
  case None
  then show ?thesis
    using assms(1) by (simp add: last_operand_None_iff [THEN iffD1] pass_frame)
next
  case (Some v)
  then obtain pre x post where sp: "args = pre @ x # post" "operand_is x (operand_name op)"
    "\<forall>z\<in>set post. \<not> operand_is z (operand_name op)" "v = operand_value x"
    by (rule last_operand_Some)
  from assms(1) obtain s1 s2 where run: "scan_operand e x s1 = Return s2"
    "scan_operands e post s2 = Return r"
    unfolding sp(1) by (rule scan_operands_split)
  have "raw_field op r = raw_field op s2"
    using run(2) sp(3) by (rule pass_frame)
  also have "\<dots> = Number (fst (parse_integer e v))"
    using run(1) sp(2) assms(2) unfolding sp(4) by (rule step_number)
  finally show ?thesis using Some by simp
qed

lemma pass_positive:
  assumes "scan_operands e args s = Return r" "is_blocksize op"
    "last_operand (operand_name op) args = Some v"
  shows "fst (parse_integer e v) \<noteq> 0"
proof -
  from assms(3) obtain pre x post where sp: "args = pre @ x # post"
    "operand_is x (operand_name op)" "v = operand_value x"
    by (rule last_operand_Some)
  from assms(1) obtain s1 s2 where "scan_operand e x s1 = Return s2"
    unfolding sp(1) by (rule scan_operands_split)
  then show ?thesis
    using sp(2) assms(2) unfolding sp(3) by (rule step_positive)
qed

text \<open>The loop without the \<open>count\<close> operands ends as the loop with them, but for
  \<open>count\<close>.\<close>

lemma pass_accepts_members:
  assumes "scan_operands e args s = Return r" "x \<in> set args"
  obtains s1 s2 where "scan_operand e x s1 = Return s2"
proof -
  from assms(2) obtain pre post where "args = pre @ x # post"
    by (auto dest: split_list)
  with assms(1) obtain s1 s2 where "scan_operand e x s1 = Return s2"
    by (auto elim: scan_operands_split)
  then show thesis by (rule that)
qed

lemma pass_with_count:
  assumes "\<forall>x\<in>set args. operand_is x ''count'' \<longrightarrow>
      CHR ''='' \<in> set x \<and> snd (parse_integer e (operand_value x)) = LONGINT_OK"
  shows "scan_operands e (filter (\<lambda>a. \<not> operand_is a ''count'') args) (s\<lparr>count := c\<rparr>)
    = with_count c (scan_operands e args s)"
  using assms
proof (induction args arbitrary: s)
  case Nil
  then show ?case by simp
next
  case (Cons x xs)
  show ?case
  proof (cases "operand_is x ''count''")
    case True
    then have "scan_operand e x s =
        Return (s\<lparr>count := fst (parse_integer e (operand_value x))\<rparr>)"
      using Cons.prems by (intro count_step) simp_all
    then show ?thesis
      using True Cons.IH [of "s\<lparr>count := fst (parse_integer e (operand_value x))\<rparr>"] Cons.prems
      by simp
  next
    case False
    show ?thesis
    proof (cases "scan_operand e x s")
      case (Return s1)
      then show ?thesis
        using False Cons.IH [of s1] Cons.prems by (simp add: step_with_count)
    next
      case (Exit n out)
      then show ?thesis using False by (simp add: step_with_count)
    next
      case (Undefined_behaviour out)
      then show ?thesis using False by (simp add: step_with_count)
    qed
  qed
qed

lemma drop_omit_operands:
  "drop optind (omit_operands name optind argv) =
    filter (\<lambda>a. \<not> operand_is a name) (drop optind argv)"
  by (cases "optind \<le> length argv") (simp_all add: omit_operands_def min_def)

subsection \<open>The steps of the resolver, field by field\<close>

lemma resolve_blocksizes_sizes:
  "input_blocksize (resolve_blocksizes s) =
    (if blocksize s \<noteq> 0 then blocksize s
     else if input_blocksize s = 0 then DEFAULT_BLOCKSIZE else input_blocksize s)"
  "output_blocksize (resolve_blocksizes s) =
    (if blocksize s \<noteq> 0 then blocksize s
     else if output_blocksize s = 0 then DEFAULT_BLOCKSIZE else output_blocksize s)"
  by (simp_all add: resolve_blocksizes_def Let_def)

lemma resolve_blocksizes_mask:
  "conversions_mask (resolve_blocksizes s) =
    (if conversion_blocksize s = 0
     then (if blocksize s \<noteq> 0 then conversions_mask s else conversions_mask s OR C_TWOBUFS)
          AND NOT (C_BLOCK OR C_UNBLOCK)
     else (if blocksize s \<noteq> 0 then conversions_mask s else conversions_mask s OR C_TWOBUFS))"
  by (simp add: resolve_blocksizes_def Let_def)

lemma resolve_blocksizes_same:
  "input_flags (resolve_blocksizes s) = input_flags s"
  "output_flags (resolve_blocksizes s) = output_flags s"
  "conversion_blocksize (resolve_blocksizes s) = conversion_blocksize s"
  "blocksize (resolve_blocksizes s) = blocksize s"
  "count (resolve_blocksizes s) = count s"
  "skip (resolve_blocksizes s) = skip s"
  "seek (resolve_blocksizes s) = seek s"
  "skip_records (resolve_blocksizes s) = skip_records s"
  "skip_bytes (resolve_blocksizes s) = skip_bytes s"
  "max_records (resolve_blocksizes s) = max_records s"
  "max_bytes (resolve_blocksizes s) = max_bytes s"
  "transcript (resolve_blocksizes s) = transcript s"
  by (simp_all add: resolve_blocksizes_def Let_def)

lemma resolve_rsync_same:
  "input_blocksize (resolve_rsync e s) = input_blocksize s"
  "output_blocksize (resolve_rsync e s) = output_blocksize s"
  "conversions_mask (resolve_rsync e s) = conversions_mask s"
  "output_flags (resolve_rsync e s) = output_flags s"
  "conversion_blocksize (resolve_rsync e s) = conversion_blocksize s"
  "count (resolve_rsync e s) = count s"
  "skip (resolve_rsync e s) = skip s"
  "seek (resolve_rsync e s) = seek s"
  "skip_records (resolve_rsync e s) = skip_records s"
  "skip_bytes (resolve_rsync e s) = skip_bytes s"
  "max_records (resolve_rsync e s) = max_records s"
  "max_bytes (resolve_rsync e s) = max_bytes s"
  by (simp_all add: resolve_rsync_def)

lemma resolve_offsets_skip:
  "skip_records (resolve_offsets e s) =
    (if input_flags s AND O_SKIP_BYTES e \<noteq> 0 \<and> skip s \<noteq> 0 then skip s div input_blocksize s
     else if skip s \<noteq> 0 then skip s else skip_records s)"
  "skip_bytes (resolve_offsets e s) =
    (if input_flags s AND O_SKIP_BYTES e \<noteq> 0 \<and> skip s \<noteq> 0 then skip s mod input_blocksize s
     else skip_bytes s)"
  by (simp_all add: resolve_offsets_def Let_def)

lemma resolve_offsets_max:
  "max_records (resolve_offsets e s) =
    (if input_flags s AND O_COUNT_BYTES e \<noteq> 0 \<and> count s \<noteq> - 1
     then count s div input_blocksize s
     else if count s \<noteq> - 1 then count s else max_records s)"
  "max_bytes (resolve_offsets e s) =
    (if input_flags s AND O_COUNT_BYTES e \<noteq> 0 \<and> count s \<noteq> - 1
     then count s mod input_blocksize s
     else max_bytes s)"
  by (simp_all add: resolve_offsets_def Let_def)

lemma resolve_offsets_same:
  "input_blocksize (resolve_offsets e s) = input_blocksize s"
  "output_blocksize (resolve_offsets e s) = output_blocksize s"
  "conversions_mask (resolve_offsets e s) = conversions_mask s"
  "input_flags (resolve_offsets e s) = input_flags s"
  "output_flags (resolve_offsets e s) = output_flags s"
  "conversion_blocksize (resolve_offsets e s) = conversion_blocksize s"
  by (simp_all add: resolve_offsets_def Let_def)

lemma resolve_reader_warn:
  "warn_partial_read (resolve_reader e s) =
    (conversions_mask s AND C_TWOBUFS = 0 \<and> input_flags s AND O_FULLBLOCK e = 0
     \<and> (skip_records s \<noteq> 0 \<or> (0 < max_records s \<and> max_records s < - 1)
          \<or> (input_flags s OR output_flags s) AND O_DIRECT e \<noteq> 0))"
  by (simp add: resolve_reader_def Let_def)

lemma resolve_reader_flags:
  "input_flags (resolve_reader e s) = input_flags s AND NOT (O_FULLBLOCK e)"
  "iread_fnc (resolve_reader e s) =
    (if input_flags s AND O_FULLBLOCK e \<noteq> 0 then iread_fullblock else iread)"
  by (simp_all add: resolve_reader_def Let_def)

lemma resolve_reader_same:
  "input_blocksize (resolve_reader e s) = input_blocksize s"
  "output_blocksize (resolve_reader e s) = output_blocksize s"
  "conversions_mask (resolve_reader e s) = conversions_mask s"
  "output_flags (resolve_reader e s) = output_flags s"
  "conversion_blocksize (resolve_reader e s) = conversion_blocksize s"
  "skip_records (resolve_reader e s) = skip_records s"
  "skip_bytes (resolve_reader e s) = skip_bytes s"
  "max_records (resolve_reader e s) = max_records s"
  "max_bytes (resolve_reader e s) = max_bytes s"
  by (simp_all add: resolve_reader_def Let_def)

lemma resolve_nocache_flags:
  "input_flags (resolve_nocache e s) =
    (if input_flags s AND O_NOCACHE e \<noteq> 0 then input_flags s AND NOT (O_NOCACHE e)
     else input_flags s)"
  "output_flags (resolve_nocache e s) =
    (if output_flags s AND O_NOCACHE e \<noteq> 0 then output_flags s AND NOT (O_NOCACHE e)
     else output_flags s)"
  by (simp_all add: resolve_nocache_def Let_def)

lemma resolve_nocache_same:
  "input_blocksize (resolve_nocache e s) = input_blocksize s"
  "output_blocksize (resolve_nocache e s) = output_blocksize s"
  "conversions_mask (resolve_nocache e s) = conversions_mask s"
  "conversion_blocksize (resolve_nocache e s) = conversion_blocksize s"
  "skip_records (resolve_nocache e s) = skip_records s"
  "skip_bytes (resolve_nocache e s) = skip_bytes s"
  "max_records (resolve_nocache e s) = max_records s"
  "max_bytes (resolve_nocache e s) = max_bytes s"
  "warn_partial_read (resolve_nocache e s) = warn_partial_read s"
  "iread_fnc (resolve_nocache e s) = iread_fnc s"
  by (simp_all add: resolve_nocache_def Let_def)

lemmas resolve_projections =
  resolve_blocksizes_sizes resolve_blocksizes_mask resolve_blocksizes_same resolve_rsync_same
  resolve_offsets_skip resolve_offsets_max resolve_offsets_same resolve_reader_warn
  resolve_reader_flags resolve_reader_same resolve_nocache_flags resolve_nocache_same

text \<open>The checks for misplaced flags change the transcript only, because \<open>usage\<close> returns;
  the exclusivity checks return the state they were given, or exit.\<close>

lemma ex_transcript_same: "\<exists>t. s = s\<lparr>transcript := t\<rparr>"
  by (rule exI [of _ "transcript s"]) simp

lemma ex_transcript_update: "\<exists>t. s\<lparr>transcript := u\<rparr> = s\<lparr>transcript := t\<rparr>"
  by (rule exI [of _ u]) simp

lemma check_misplaced_returns: "\<exists>t. check_misplaced e s = Return (s\<lparr>transcript := t\<rparr>)"
  by (simp add: check_misplaced_def error_0 usage_failure ex_transcript_same
      ex_transcript_update)

lemma check_exclusive_Return:
  assumes "check_exclusive e s = Return s'"
  shows "s' = s"
    and "\<not> multiple_bits_set (conversions_mask s AND (C_ASCII OR C_EBCDIC OR C_IBM))"
    and "\<not> multiple_bits_set (conversions_mask s AND (C_BLOCK OR C_UNBLOCK))"
    and "\<not> multiple_bits_set (conversions_mask s AND (C_LCASE OR C_UCASE))"
    and "\<not> multiple_bits_set (conversions_mask s AND (C_EXCL OR C_NOCREAT))"
    and "\<not> multiple_bits_set (input_flags s AND (O_DIRECT e OR O_NOCACHE e))"
    and "\<not> multiple_bits_set (output_flags s AND (O_DIRECT e OR O_NOCACHE e))"
  using assms by (auto simp: check_exclusive_def error_failure split: if_splits)

lemma resolve_fields_Return:
  assumes "resolve_fields e r = Return c"
  obtains t where
    "c = resolve_reader e (resolve_offsets e
           ((resolve_rsync e (resolve_blocksizes r))\<lparr>transcript := t\<rparr>))"
proof -
  obtain t where "check_misplaced e (resolve_rsync e (resolve_blocksizes r)) =
      Return ((resolve_rsync e (resolve_blocksizes r))\<lparr>transcript := t\<rparr>)"
    using check_misplaced_returns by blast
  with assms have "c = resolve_reader e (resolve_offsets e
           ((resolve_rsync e (resolve_blocksizes r))\<lparr>transcript := t\<rparr>))"
    by (simp add: resolve_fields_def)
  then show thesis by (rule that)
qed

lemma resolve_Return:
  assumes "resolve e r = Return p"
  obtains c where "resolve_fields e r = Return c" "check_exclusive e c = Return c"
    "p = resolve_nocache e c"
proof -
  from assms obtain c c' where c: "resolve_fields e r = Return c"
    "check_exclusive e c = Return c'" "p = resolve_nocache e c'"
    by (auto simp: resolve_def and_then_Return_iff)
  then have "c' = c" using check_exclusive_Return(1) by blast
  with c that show thesis by blast
qed

lemma resolve_Return_form:
  assumes "resolve e r = Return p"
  obtains t where
    "p = resolve_nocache e (resolve_reader e (resolve_offsets e
           ((resolve_rsync e (resolve_blocksizes r))\<lparr>transcript := t\<rparr>)))"
proof -
  from assms obtain c where c: "resolve_fields e r = Return c" "p = resolve_nocache e c"
    by (rule resolve_Return)
  from c(1) obtain t where "c = resolve_reader e (resolve_offsets e
           ((resolve_rsync e (resolve_blocksizes r))\<lparr>transcript := t\<rparr>))"
    by (rule resolve_fields_Return)
  with c(2) that show thesis by blast
qed

lemma scanargs_Return:
  assumes "scanargs e optind argv s = Return p"
  obtains r where "operand_pass e optind argv s = Return r" "resolve e r = Return p"
  using assms by (auto simp: scanargs_def and_then_Return_iff)

lemma scanargs_at_checks:
  assumes "and_then (operand_pass e optind argv s) (resolve_fields e) = Return c"
  shows "scanargs e optind argv s =
    and_then (check_exclusive e c) (\<lambda>s3. Return (resolve_nocache e s3))"
proof -
  from assms obtain r where "operand_pass e optind argv s = Return r"
    "resolve_fields e r = Return c"
    by (auto simp: and_then_Return_iff)
  then show ?thesis
    by (simp add: scanargs_def resolve_def)
qed

subsection \<open>The plan in terms of the raw fields\<close>

lemma and_not_and_disjoint:
  fixes m a b :: "'a::len word"
  assumes "a AND b = 0"
  shows "(m AND NOT a) AND b = m AND b"
proof (rule bit_word_eqI)
  fix n
  assume "n < LENGTH('a)"
  have "\<not> (bit a n \<and> bit b n)"
  proof
    assume "bit a n \<and> bit b n"
    then have "bit (a AND b) n" by (simp add: bit_and_iff)
    with assms show False by simp
  qed
  with \<open>n < LENGTH('a)\<close> show "bit ((m AND NOT a) AND b) n = bit (m AND b) n"
    by (auto simp: bit_and_iff bit_not_iff)
qed

lemma and_not_and_self: "(m AND NOT a) AND a = 0" for m a :: "'a::len word"
  by (simp add: and.assoc)

lemma plan_blocksizes:
  assumes "resolve e r = Return p"
  shows "input_blocksize p =
      (if blocksize r \<noteq> 0 then blocksize r
       else if input_blocksize r = 0 then DEFAULT_BLOCKSIZE else input_blocksize r)"
    and "output_blocksize p =
      (if blocksize r \<noteq> 0 then blocksize r
       else if output_blocksize r = 0 then DEFAULT_BLOCKSIZE else output_blocksize r)"
proof -
  from assms obtain c where c: "resolve_fields e r = Return c" "p = resolve_nocache e c"
    by (rule resolve_Return)
  from c(1) obtain t where "c = resolve_reader e (resolve_offsets e
           ((resolve_rsync e (resolve_blocksizes r))\<lparr>transcript := t\<rparr>))"
    by (rule resolve_fields_Return)
  with c(2) show "input_blocksize p =
      (if blocksize r \<noteq> 0 then blocksize r
       else if input_blocksize r = 0 then DEFAULT_BLOCKSIZE else input_blocksize r)"
    and "output_blocksize p =
      (if blocksize r \<noteq> 0 then blocksize r
       else if output_blocksize r = 0 then DEFAULT_BLOCKSIZE else output_blocksize r)"
    by (simp_all add: resolve_projections)
qed

lemma plan_mask:
  assumes "resolve e r = Return p"
  shows "conversions_mask p =
    (if conversion_blocksize r = 0
     then (if blocksize r \<noteq> 0 then conversions_mask r else conversions_mask r OR C_TWOBUFS)
          AND NOT (C_BLOCK OR C_UNBLOCK)
     else (if blocksize r \<noteq> 0 then conversions_mask r else conversions_mask r OR C_TWOBUFS))"
proof -
  from assms obtain c where c: "resolve_fields e r = Return c" "p = resolve_nocache e c"
    by (rule resolve_Return)
  from c(1) obtain t where "c = resolve_reader e (resolve_offsets e
           ((resolve_rsync e (resolve_blocksizes r))\<lparr>transcript := t\<rparr>))"
    by (rule resolve_fields_Return)
  with c(2) show ?thesis
    by (simp add: resolve_projections)
qed

lemma plan_twobufs:
  assumes "resolve e r = Return p"
  shows "conversions_mask p AND C_TWOBUFS =
    (if blocksize r \<noteq> 0 then conversions_mask r AND C_TWOBUFS else C_TWOBUFS)"
proof -
  have disj: "(C_BLOCK OR C_UNBLOCK) AND C_TWOBUFS = 0"
    by (simp add: c_defs)
  show ?thesis
    by (simp add: plan_mask [OF assms] and_not_and_disjoint [OF disj] word_ao_absorbs
        del: bit.de_Morgan_disj)
qed

lemma plan_cbs:
  assumes "resolve e r = Return p"
  shows "conversion_blocksize p = conversion_blocksize r"
proof -
  from assms obtain t where
    "p = resolve_nocache e (resolve_reader e (resolve_offsets e
           ((resolve_rsync e (resolve_blocksizes r))\<lparr>transcript := t\<rparr>)))"
    by (rule resolve_Return_form)
  then show ?thesis by (simp add: resolve_projections)
qed

lemma plan_skip:
  assumes "resolve e r = Return p"
  shows "skip_records p =
      (if input_flags (resolve_rsync e r) AND O_SKIP_BYTES e \<noteq> 0 \<and> skip r \<noteq> 0
       then skip r div input_blocksize p
       else if skip r \<noteq> 0 then skip r else skip_records r)"
    and "skip_bytes p =
      (if input_flags (resolve_rsync e r) AND O_SKIP_BYTES e \<noteq> 0 \<and> skip r \<noteq> 0
       then skip r mod input_blocksize p
       else skip_bytes r)"
proof -
  from assms obtain t where p:
    "p = resolve_nocache e (resolve_reader e (resolve_offsets e
           ((resolve_rsync e (resolve_blocksizes r))\<lparr>transcript := t\<rparr>)))"
    by (rule resolve_Return_form)
  have fl: "input_flags (resolve_rsync e (resolve_blocksizes r)) = input_flags (resolve_rsync e r)"
    by (simp add: resolve_rsync_def resolve_blocksizes_same)
  show "skip_records p =
      (if input_flags (resolve_rsync e r) AND O_SKIP_BYTES e \<noteq> 0 \<and> skip r \<noteq> 0
       then skip r div input_blocksize p
       else if skip r \<noteq> 0 then skip r else skip_records r)"
    by (simp add: p resolve_projections fl)
  show "skip_bytes p =
      (if input_flags (resolve_rsync e r) AND O_SKIP_BYTES e \<noteq> 0 \<and> skip r \<noteq> 0
       then skip r mod input_blocksize p
       else skip_bytes r)"
    by (simp add: p resolve_projections fl)
qed

lemma plan_max:
  assumes "resolve e r = Return p"
  shows "max_records p =
      (if input_flags (resolve_rsync e r) AND O_COUNT_BYTES e \<noteq> 0 \<and> count r \<noteq> - 1
       then count r div input_blocksize p
       else if count r \<noteq> - 1 then count r else max_records r)"
    and "max_bytes p =
      (if input_flags (resolve_rsync e r) AND O_COUNT_BYTES e \<noteq> 0 \<and> count r \<noteq> - 1
       then count r mod input_blocksize p
       else max_bytes r)"
proof -
  from assms obtain t where p:
    "p = resolve_nocache e (resolve_reader e (resolve_offsets e
           ((resolve_rsync e (resolve_blocksizes r))\<lparr>transcript := t\<rparr>)))"
    by (rule resolve_Return_form)
  have fl: "input_flags (resolve_rsync e (resolve_blocksizes r)) = input_flags (resolve_rsync e r)"
    by (simp add: resolve_rsync_def resolve_blocksizes_same)
  show "max_records p =
      (if input_flags (resolve_rsync e r) AND O_COUNT_BYTES e \<noteq> 0 \<and> count r \<noteq> - 1
       then count r div input_blocksize p
       else if count r \<noteq> - 1 then count r else max_records r)"
    by (simp add: p resolve_projections fl)
  show "max_bytes p =
      (if input_flags (resolve_rsync e r) AND O_COUNT_BYTES e \<noteq> 0 \<and> count r \<noteq> - 1
       then count r mod input_blocksize p
       else max_bytes r)"
    by (simp add: p resolve_projections fl)
qed

lemma plan_warn:
  assumes "resolve e r = Return p"
  shows "warn_partial_read p =
    (conversions_mask p AND C_TWOBUFS = 0
     \<and> input_flags (resolve_rsync e r) AND O_FULLBLOCK e = 0
     \<and> (skip_records p \<noteq> 0 \<or> (0 < max_records p \<and> max_records p < - 1)
          \<or> (input_flags (resolve_rsync e r) OR output_flags r) AND O_DIRECT e \<noteq> 0))"
proof -
  from assms obtain t where p:
    "p = resolve_nocache e (resolve_reader e (resolve_offsets e
           ((resolve_rsync e (resolve_blocksizes r))\<lparr>transcript := t\<rparr>)))"
    by (rule resolve_Return_form)
  have fl: "input_flags (resolve_rsync e (resolve_blocksizes r)) = input_flags (resolve_rsync e r)"
    by (simp add: resolve_rsync_def resolve_blocksizes_same)
  show ?thesis
    by (simp add: p resolve_nocache_same resolve_reader_warn resolve_reader_same
        resolve_offsets_same resolve_rsync_same resolve_blocksizes_same fl)
qed

subsection \<open>Masks with at most one bit\<close>

text \<open>\<open>w & (w - 1)\<close> is 0 exactly when at most one bit of \<open>w\<close> is set: if two bits are set,
  taking 1 away changes bits below the higher one only.\<close>

lemma nat_bit_pred:
  fixes n :: nat
  assumes "i < j" "bit n i" "bit n j"
  shows "bit (n - 1) j"
proof -
  have low: "take_bit j n \<noteq> 0"
  proof
    assume "take_bit j n = 0"
    then have "\<not> bit (take_bit j n) i" by simp
    with assms show False by (simp add: bit_take_bit_iff)
  qed
  have split: "n = take_bit j n + 2 ^ j * drop_bit j n"
    by (simp add: take_bit_eq_mod drop_bit_eq_div)
  have lt: "take_bit j n - 1 < 2 ^ j"
    using take_bit_nat_less_exp [of j n] by (rule le_less_trans [OF diff_le_self])
  have "n - 1 = (take_bit j n - 1) + 2 ^ j * drop_bit j n"
    using low split by linarith
  then have "(n - 1) div 2 ^ j = drop_bit j n"
    using lt by simp
  moreover have "odd (drop_bit j n)"
    using assms(3) by (simp add: bit_iff_odd_drop_bit)
  ultimately show ?thesis
    by (simp add: bit_iff_odd)
qed

lemma word_bit_pred:
  fixes w :: "'a::len word"
  assumes "i < j" "bit w i" "bit w j"
  shows "bit (w - 1) j"
proof -
  have nz: "w \<noteq> 0" using assms(2) by auto
  have "bit (unat w - 1) j"
    using assms by (intro nat_bit_pred [of i j]) (simp_all add: bit_unsigned_iff)
  then have "bit (unat (w - 1)) j"
    using nz by (simp add: unat_minus_one)
  then show ?thesis
    by (simp add: bit_unsigned_iff)
qed

lemma and_pred_single_bit:
  fixes w :: "'a::len word"
  assumes "w AND (w - 1) = 0" "bit w i" "bit w j"
  shows "i = j"
proof (rule ccontr)
  assume ne: "i \<noteq> j"
  define a where "a = min i j"
  define b where "b = max i j"
  have ab: "a < b" "bit w a" "bit w b"
    using ne assms(2,3) by (auto simp: a_def b_def min_def max_def)
  then have "bit (w AND (w - 1)) b"
    using word_bit_pred [of a b w] by (simp add: bit_and_iff)
  with assms(1) show False by simp
qed

lemma single_bit_and_pred:
  fixes w :: "'a::len word"
  assumes "\<forall>i j. bit w i \<longrightarrow> bit w j \<longrightarrow> i = j"
  shows "w AND (w - 1) = 0"
proof (cases "w = 0")
  case True
  then show ?thesis by simp
next
  case False
  then obtain k where k: "bit w k"
    by (auto simp: bit_eq_iff)
  then have len: "k < LENGTH('a)"
    by (rule bit_imp_le_length)
  have w: "w = 2 ^ k"
  proof (rule bit_word_eqI)
    fix n
    assume "n < LENGTH('a)"
    then show "bit w n = bit (2 ^ k :: 'a word) n"
      using assms k len by (auto simp: bit_exp_iff)
  qed
  have "(2 ^ k :: 'a word) AND mask k = 0"
    by (rule bit_word_eqI) (auto simp: bit_and_iff bit_exp_iff bit_mask_iff)
  then show ?thesis
    by (simp add: w mask_eq_exp_minus_1)
qed

lemma at_most_one_bit_iff:
  "at_most_one_bit w \<longleftrightarrow> (\<forall>i j. bit w i \<longrightarrow> bit w j \<longrightarrow> i = j)"
proof -
  have "{i. bit w i} \<inter> set [0..<32] = {i. bit w i}"
    by (auto dest: bit_imp_le_length)
  then have "bits_set w = card {i. bit w i}"
    by (simp add: bits_set_def distinct_length_filter)
  moreover have "finite {i. bit w i}"
    by (rule finite_subset [of _ "{..<32}"]) (auto dest: bit_imp_le_length)
  ultimately show ?thesis
    by (auto simp: at_most_one_bit_def card_le_Suc0_iff_eq)
qed

lemma multiple_bits_set_iff: "multiple_bits_set w \<longleftrightarrow> \<not> at_most_one_bit w"
  unfolding multiple_bits_set_def at_most_one_bit_iff
  using and_pred_single_bit [of w] single_bit_and_pred [of w] by blast

lemma at_most_one_bit_and_pred: "at_most_one_bit w \<longleftrightarrow> w AND (w - 1) = 0"
  using multiple_bits_set_iff [of w] by (simp add: multiple_bits_set_def)

lemma at_most_one_bit_subset:
  assumes "at_most_one_bit (x AND g)"
  shows "at_most_one_bit ((x AND NOT n) AND g)"
  using assms unfolding at_most_one_bit_iff by (auto simp: bit_and_iff)

lemma check_exclusive_cases:
  "check_exclusive e c =
    (if \<not> at_most_one_bit (conversions_mask c AND (C_ASCII OR C_EBCDIC OR C_IBM))
     then Exit EXIT_FAILURE
            (transcript c @ [Diagnostic No_errno ''cannot combine any two of {ascii,ebcdic,ibm}''])
     else if \<not> at_most_one_bit (conversions_mask c AND (C_BLOCK OR C_UNBLOCK))
     then Exit EXIT_FAILURE
            (transcript c @ [Diagnostic No_errno ''cannot combine block and unblock''])
     else if \<not> at_most_one_bit (conversions_mask c AND (C_LCASE OR C_UCASE))
     then Exit EXIT_FAILURE
            (transcript c @ [Diagnostic No_errno ''cannot combine lcase and ucase''])
     else if \<not> at_most_one_bit (conversions_mask c AND (C_EXCL OR C_NOCREAT))
     then Exit EXIT_FAILURE
            (transcript c @ [Diagnostic No_errno ''cannot combine excl and nocreat''])
     else if \<not> at_most_one_bit (input_flags c AND (O_DIRECT e OR O_NOCACHE e))
             \<or> \<not> at_most_one_bit (output_flags c AND (O_DIRECT e OR O_NOCACHE e))
     then Exit EXIT_FAILURE
            (transcript c @ [Diagnostic No_errno ''cannot combine direct and nocache''])
     else Return c)"
  by (simp add: check_exclusive_def multiple_bits_set_iff error_failure)

subsection \<open>Block sizes\<close>

text \<open>
  Claim C3. In every accepted configuration: if the \<open>bs\<close> operand set the value \<open>N\<close>
  (the value of the last \<open>bs=\<close> argument), both block sizes are \<open>N\<close> at the exit of the
  resolver and the resolver does not force \<open>C_TWOBUFS\<close>: the bit is in the final mask as
  the operand pass left it (state \<open>r\<close>). If there is no \<open>bs\<close> operand, \<open>C_TWOBUFS\<close> is set in
  the final mask.
\<close>

theorem bs_decides_blocksizes:
  assumes "operand_pass e optind argv s = Return r"
    and "scanargs e optind argv s = Return p"
  shows "(\<forall>v. last_operand ''bs'' (drop optind argv) = Some v \<longrightarrow>
            input_blocksize p = fst (parse_integer e v)
            \<and> output_blocksize p = fst (parse_integer e v)
            \<and> conversions_mask p AND C_TWOBUFS = conversions_mask r AND C_TWOBUFS)
       \<and> (last_operand ''bs'' (drop optind argv) = None \<longrightarrow>
            conversions_mask p AND C_TWOBUFS = C_TWOBUFS)"
proof -
  from assms have res: "resolve e r = Return p"
    by (simp add: scanargs_def)
  from assms(1) have run: "scan_operands e (drop optind argv)
      (s\<lparr>blocksize := 0, count := - 1, skip := 0, seek := 0\<rparr>) = Return r"
    by (simp add: operand_pass_def)
  have bs: "Number (blocksize r) =
    (case last_operand ''bs'' (drop optind argv) of
       None \<Rightarrow> Number 0 | Some v \<Rightarrow> Number (fst (parse_integer e v)))"
    using pass_number [OF run, of Op_bs] by (simp add: is_number_def split: option.splits)
  have pos: "fst (parse_integer e v) \<noteq> 0" if "last_operand ''bs'' (drop optind argv) = Some v" for v
    using pass_positive [OF run, of Op_bs v] that by (simp add: is_blocksize_def)
  show ?thesis
    using bs pos
    by (auto simp: plan_blocksizes [OF res] plan_twobufs [OF res])
qed

text \<open>An accepted run with \<open>bs=4\<close>, and one without a \<open>bs\<close> operand.\<close>

theorem bs_decides_blocksizes_witness:
  "operand_pass sample 1 [''dd'', ''bs=4''] initial_state =
     Return (initial_state\<lparr>blocksize := 4, count := - 1\<rparr>)
   \<and> scanargs sample 1 [''dd'', ''bs=4''] initial_state =
     Return (initial_state\<lparr>input_blocksize := 4, output_blocksize := 4, blocksize := 4,
               count := - 1\<rparr>)
   \<and> last_operand ''bs'' (drop 1 [''dd'', ''bs=4'']) = Some ''4''
   \<and> fst (parse_integer sample ''4'') = 4
   \<and> input_blocksize (initial_state\<lparr>input_blocksize := 4, output_blocksize := 4,
         blocksize := 4, count := - 1\<rparr>) = 4
   \<and> output_blocksize (initial_state\<lparr>input_blocksize := 4, output_blocksize := 4,
         blocksize := 4, count := - 1\<rparr>) = 4
   \<and> conversions_mask (initial_state\<lparr>input_blocksize := 4, output_blocksize := 4,
         blocksize := 4, count := - 1\<rparr>) AND C_TWOBUFS
       = conversions_mask (initial_state\<lparr>blocksize := 4, count := - 1\<rparr>) AND C_TWOBUFS
   \<and> scanargs sample 1 [''dd''] initial_state =
     Return (initial_state\<lparr>conversions_mask := C_TWOBUFS, input_blocksize := 512,
               output_blocksize := 512, count := - 1\<rparr>)
   \<and> last_operand ''bs'' (drop 1 [''dd'']) = None
   \<and> conversions_mask (initial_state\<lparr>conversions_mask := C_TWOBUFS, input_blocksize := 512,
         output_blocksize := 512, count := - 1\<rparr>) AND C_TWOBUFS = C_TWOBUFS"
proof -
  have r1: "operand_pass sample 1 [''dd'', ''bs=4''] initial_state =
     Return (initial_state\<lparr>blocksize := 4, count := - 1\<rparr>)"
    by (simp add: run_defs)
  have p1: "scanargs sample 1 [''dd'', ''bs=4''] initial_state =
     Return (initial_state\<lparr>input_blocksize := 4, output_blocksize := 4, blocksize := 4,
               count := - 1\<rparr>)"
    by (simp add: run_defs)
  have r2: "operand_pass sample 1 [''dd''] initial_state =
     Return (initial_state\<lparr>count := - 1\<rparr>)"
    by (simp add: run_defs)
  have p2: "scanargs sample 1 [''dd''] initial_state =
     Return (initial_state\<lparr>conversions_mask := C_TWOBUFS, input_blocksize := 512,
               output_blocksize := 512, count := - 1\<rparr>)"
    by (simp add: run_defs)
  have l1: "last_operand ''bs'' (drop 1 [''dd'', ''bs=4'']) = Some ''4''"
    by (simp add: operand_defs)
  have l2: "last_operand ''bs'' (drop 1 [''dd'']) = None"
    by (simp add: operand_defs)
  have n: "fst (parse_integer sample ''4'') = 4"
    by (simp add: sample_defs)
  show ?thesis
    using bs_decides_blocksizes [OF r1 p1] bs_decides_blocksizes [OF r2 p2] r1 p1 p2 l1 l2 n
    by simp
qed

text \<open>
  Claim C6. In every accepted plan both block sizes are at least 1: an \<open>ibs\<close>, \<open>obs\<close> or
  \<open>bs\<close> operand whose value is below 1 ends the process with the "invalid number"
  diagnostic, and a block size that no operand set (it is 0 after the operand pass, and
  so is \<open>blocksize\<close>) becomes the default block size.
\<close>

theorem blocksizes_at_least_one:
  "(scanargs e optind argv s = Return p \<longrightarrow>
      1 \<le> input_blocksize p \<and> 1 \<le> output_blocksize p)
   \<and> (op \<in> {Op_ibs, Op_obs, Op_bs} \<and> operand_is x (operand_name op) \<and> CHR ''='' \<in> set x
        \<and> fst (parse_integer e (operand_value x)) < 1 \<longrightarrow>
      scan_operand e x t =
        Exit EXIT_FAILURE
          (transcript t @
           [Diagnostic No_errno (''invalid number: '' @ quote e (operand_value x))]))
   \<and> (operand_pass e optind argv s = Return r \<and> scanargs e optind argv s = Return p
        \<and> blocksize r = 0 \<longrightarrow>
      (input_blocksize r = 0 \<longrightarrow> input_blocksize p = DEFAULT_BLOCKSIZE)
      \<and> (output_blocksize r = 0 \<longrightarrow> output_blocksize p = DEFAULT_BLOCKSIZE))"
proof (intro conjI impI)
  assume acc: "scanargs e optind argv s = Return p"
  then obtain r' where "resolve e r' = Return p"
    by (rule scanargs_Return)
  then show "1 \<le> input_blocksize p" "1 \<le> output_blocksize p"
    by (simp_all add: plan_blocksizes word_one_le_iff DEFAULT_BLOCKSIZE_def)
next
  assume h: "op \<in> {Op_ibs, Op_obs, Op_bs} \<and> operand_is x (operand_name op)
    \<and> CHR ''='' \<in> set x \<and> fst (parse_integer e (operand_value x)) < 1"
  then show "scan_operand e x t =
        Exit EXIT_FAILURE
          (transcript t @
           [Diagnostic No_errno (''invalid number: '' @ quote e (operand_value x))])"
    by (intro blocksize_zero_rejected [of x op]) (auto simp: is_blocksize_def)
next
  assume h: "operand_pass e optind argv s = Return r \<and> scanargs e optind argv s = Return p
    \<and> blocksize r = 0"
  then have res: "resolve e r = Return p"
    by (auto simp: scanargs_def)
  { assume "input_blocksize r = 0"
    with h show "input_blocksize p = DEFAULT_BLOCKSIZE"
      by (simp add: plan_blocksizes [OF res]) }
  { assume "output_blocksize r = 0"
    with h show "output_blocksize p = DEFAULT_BLOCKSIZE"
      by (simp add: plan_blocksizes [OF res]) }
qed

text \<open>An accepted run with \<open>ibs=1\<close>, the operand \<open>ibs=0\<close>, and a run that sets no block size.\<close>

theorem blocksizes_at_least_one_witness:
  "scanargs sample 1 [''dd'', ''ibs=1''] initial_state =
     Return (initial_state\<lparr>conversions_mask := C_TWOBUFS, input_blocksize := 1,
               output_blocksize := 512, count := - 1\<rparr>)
   \<and> 1 \<le> input_blocksize (initial_state\<lparr>conversions_mask := C_TWOBUFS,
         input_blocksize := 1, output_blocksize := 512, count := - 1\<rparr>)
   \<and> 1 \<le> output_blocksize (initial_state\<lparr>conversions_mask := C_TWOBUFS,
         input_blocksize := 1, output_blocksize := 512, count := - 1\<rparr>)
   \<and> Op_ibs \<in> {Op_ibs, Op_obs, Op_bs} \<and> operand_is ''ibs=0'' (operand_name Op_ibs)
   \<and> CHR ''='' \<in> set ''ibs=0'' \<and> fst (parse_integer sample (operand_value ''ibs=0'')) < 1
   \<and> scan_operand sample ''ibs=0'' initial_state =
       Exit EXIT_FAILURE
         (transcript initial_state @
          [Diagnostic No_errno (''invalid number: '' @ quote sample (operand_value ''ibs=0''))])
   \<and> operand_pass sample 1 [''dd''] initial_state = Return (initial_state\<lparr>count := - 1\<rparr>)
   \<and> scanargs sample 1 [''dd''] initial_state =
       Return (initial_state\<lparr>conversions_mask := C_TWOBUFS, input_blocksize := 512,
                 output_blocksize := 512, count := - 1\<rparr>)
   \<and> blocksize (initial_state\<lparr>count := - 1\<rparr>) = 0
   \<and> input_blocksize (initial_state\<lparr>count := - 1\<rparr>) = 0
   \<and> output_blocksize (initial_state\<lparr>count := - 1\<rparr>) = 0
   \<and> input_blocksize (initial_state\<lparr>conversions_mask := C_TWOBUFS, input_blocksize := 512,
         output_blocksize := 512, count := - 1\<rparr>) = DEFAULT_BLOCKSIZE
   \<and> output_blocksize (initial_state\<lparr>conversions_mask := C_TWOBUFS, input_blocksize := 512,
         output_blocksize := 512, count := - 1\<rparr>) = DEFAULT_BLOCKSIZE"
proof -
  have a: "scanargs sample 1 [''dd'', ''ibs=1''] initial_state =
     Return (initial_state\<lparr>conversions_mask := C_TWOBUFS, input_blocksize := 1,
               output_blocksize := 512, count := - 1\<rparr>)"
    by (simp add: run_defs)
  have b: "Op_ibs \<in> {Op_ibs, Op_obs, Op_bs} \<and> operand_is ''ibs=0'' (operand_name Op_ibs)
      \<and> CHR ''='' \<in> set ''ibs=0'' \<and> fst (parse_integer sample (operand_value ''ibs=0'')) < 1"
    by (simp add: operand_defs sample_defs)
  have c: "operand_pass sample 1 [''dd''] initial_state = Return (initial_state\<lparr>count := - 1\<rparr>)
     \<and> scanargs sample 1 [''dd''] initial_state =
       Return (initial_state\<lparr>conversions_mask := C_TWOBUFS, input_blocksize := 512,
                 output_blocksize := 512, count := - 1\<rparr>)
     \<and> blocksize (initial_state\<lparr>count := - 1\<rparr>) = 0"
    by (simp add: run_defs)
  have d: "input_blocksize (initial_state\<lparr>count := - 1\<rparr>) = 0"
    "output_blocksize (initial_state\<lparr>count := - 1\<rparr>) = 0"
    by (simp_all add: initial_state_def)
  show ?thesis
    using a b c d
      blocksizes_at_least_one [where e = sample and optind = 1
        and argv = "[''dd'', ''ibs=1'']" and s = initial_state
        and p = "initial_state\<lparr>conversions_mask := C_TWOBUFS, input_blocksize := 1,
               output_blocksize := 512, count := - 1\<rparr>", THEN conjunct1]
      blocksizes_at_least_one [where e = sample and op = Op_ibs and x = "''ibs=0''"
        and t = initial_state, THEN conjunct2, THEN conjunct1]
      blocksizes_at_least_one [where e = sample and optind = 1 and argv = "[''dd'']"
        and s = initial_state and r = "initial_state\<lparr>count := - 1\<rparr>"
        and p = "initial_state\<lparr>conversions_mask := C_TWOBUFS, input_blocksize := 512,
                 output_blocksize := 512, count := - 1\<rparr>", THEN conjunct2, THEN conjunct2]
    by blast
qed

subsection \<open>The conversion block size\<close>

text \<open>
  Claim C4, as the code has it. The \<open>cbs\<close> operand has the lower bound 1: the value 0 ends
  the process with the "invalid number" diagnostic, every value from 1 on that the
  integer parser accepts is stored, and whenever \<open>conversion_blocksize\<close> is 0 at the exit
  of the resolver the bits \<open>C_BLOCK\<close> and \<open>C_UNBLOCK\<close> are cleared in the final mask.
\<close>

theorem cbs_zero_rejected:
  "(operand_is x ''cbs'' \<and> CHR ''='' \<in> set x
      \<and> fst (parse_integer e (operand_value x)) = 0 \<longrightarrow>
      scan_operand e x t =
        Exit EXIT_FAILURE
          (transcript t @
           [Diagnostic No_errno (''invalid number: '' @ quote e (operand_value x))]))
   \<and> (operand_is x ''cbs'' \<and> CHR ''='' \<in> set x
        \<and> parse_integer e (operand_value x) = (n, LONGINT_OK) \<and> 1 \<le> n \<longrightarrow>
      scan_operand e x t = Return (t\<lparr>conversion_blocksize := n\<rparr>))
   \<and> (scanargs e optind argv s = Return p \<and> conversion_blocksize p = 0 \<longrightarrow>
      conversions_mask p AND (C_BLOCK OR C_UNBLOCK) = 0)"
proof (intro conjI impI)
  assume "operand_is x ''cbs'' \<and> CHR ''='' \<in> set x
      \<and> fst (parse_integer e (operand_value x)) = 0"
  then show "scan_operand e x t =
        Exit EXIT_FAILURE
          (transcript t @
           [Diagnostic No_errno (''invalid number: '' @ quote e (operand_value x))])"
    by (intro blocksize_zero_rejected [of x Op_cbs]) (simp_all add: is_blocksize_def)
next
  assume "operand_is x ''cbs'' \<and> CHR ''='' \<in> set x
        \<and> parse_integer e (operand_value x) = (n, LONGINT_OK) \<and> 1 \<le> n"
  then show "scan_operand e x t = Return (t\<lparr>conversion_blocksize := n\<rparr>)"
    by (intro cbs_accepted) simp_all
next
  assume h: "scanargs e optind argv s = Return p \<and> conversion_blocksize p = 0"
  then obtain r where res: "resolve e r = Return p"
    by (blast elim: scanargs_Return)
  with h have "conversion_blocksize r = 0"
    by (simp add: plan_cbs)
  then show "conversions_mask p AND (C_BLOCK OR C_UNBLOCK) = 0"
    by (simp add: plan_mask [OF res] and_not_and_self del: bit.de_Morgan_disj)
qed

text \<open>The operands \<open>cbs=0\<close> and \<open>cbs=5\<close>, and an accepted run with \<open>conv=block\<close> and no \<open>cbs\<close>.\<close>

theorem cbs_zero_rejected_witness:
  "operand_is ''cbs=0'' ''cbs'' \<and> CHR ''='' \<in> set ''cbs=0''
   \<and> fst (parse_integer sample (operand_value ''cbs=0'')) = 0
   \<and> scan_operand sample ''cbs=0'' initial_state =
       Exit EXIT_FAILURE
         (transcript initial_state @
          [Diagnostic No_errno (''invalid number: '' @ quote sample (operand_value ''cbs=0''))])
   \<and> operand_is ''cbs=5'' ''cbs'' \<and> CHR ''='' \<in> set ''cbs=5''
   \<and> parse_integer sample (operand_value ''cbs=5'') = (5, LONGINT_OK) \<and> (1 :: uintmax) \<le> 5
   \<and> scan_operand sample ''cbs=5'' initial_state =
       Return (initial_state\<lparr>conversion_blocksize := 5\<rparr>)
   \<and> scanargs sample 1 [''dd'', ''conv=block''] initial_state =
       Return (initial_state\<lparr>conversions_mask := C_TWOBUFS, input_blocksize := 512,
                 output_blocksize := 512, count := - 1\<rparr>)
   \<and> conversion_blocksize (initial_state\<lparr>conversions_mask := C_TWOBUFS,
         input_blocksize := 512, output_blocksize := 512, count := - 1\<rparr>) = 0
   \<and> conversions_mask (initial_state\<lparr>conversions_mask := C_TWOBUFS,
         input_blocksize := 512, output_blocksize := 512, count := - 1\<rparr>)
       AND (C_BLOCK OR C_UNBLOCK) = 0"
proof -
  have a: "operand_is ''cbs=0'' ''cbs'' \<and> CHR ''='' \<in> set ''cbs=0''
      \<and> fst (parse_integer sample (operand_value ''cbs=0'')) = 0"
    by (simp add: operand_defs sample_defs)
  have b: "operand_is ''cbs=5'' ''cbs'' \<and> CHR ''='' \<in> set ''cbs=5''
      \<and> parse_integer sample (operand_value ''cbs=5'') = (5, LONGINT_OK) \<and> (1 :: uintmax) \<le> 5"
    by (simp add: operand_defs sample_defs)
  have c: "scanargs sample 1 [''dd'', ''conv=block''] initial_state =
       Return (initial_state\<lparr>conversions_mask := C_TWOBUFS, input_blocksize := 512,
                 output_blocksize := 512, count := - 1\<rparr>)
     \<and> conversion_blocksize (initial_state\<lparr>conversions_mask := C_TWOBUFS,
         input_blocksize := 512, output_blocksize := 512, count := - 1\<rparr>) = 0"
    by (simp add: run_defs)
  show ?thesis
    using a b c
      cbs_zero_rejected [where x = "''cbs=0''" and e = sample and t = initial_state,
        THEN conjunct1]
      cbs_zero_rejected [where x = "''cbs=5''" and e = sample and t = initial_state
        and n = 5, THEN conjunct2, THEN conjunct1]
      cbs_zero_rejected [where e = sample and optind = 1
        and argv = "[''dd'', ''conv=block'']" and s = initial_state
        and p = "initial_state\<lparr>conversions_mask := C_TWOBUFS, input_blocksize := 512,
                 output_blocksize := 512, count := - 1\<rparr>", THEN conjunct2, THEN conjunct2]
    by blast
qed

text \<open>The claim as stated fails: \<open>dd cbs=0\<close> is rejected as an invalid number.\<close>

theorem cbs_zero_counterexample:
  "scanargs sample 1 [''dd'', ''cbs=0''] initial_state =
    Exit EXIT_FAILURE [Diagnostic No_errno (''invalid number: '' @ quote sample ''0'')]"
  by (simp add: scan_defs sample_defs)

subsection \<open>Exclusive groups\<close>

text \<open>
  Claim C7. In every accepted plan at most one bit is set in each exclusivity group of
  the conversions mask and, for the input and the output flags, in the group of
  \<open>O_DIRECT\<close> and \<open>O_NOCACHE\<close>. A violation is rejected: when \<open>c\<close> is the state in which
  \<open>scanargs\<close> reaches the exclusivity checks (line 361), the first group of \<open>c\<close> with more
  than one bit makes \<open>scanargs\<close> exit with \<open>EXIT_FAILURE\<close> after the "cannot combine"
  diagnostic of that group.
\<close>

theorem exclusive_groups:
  "(scanargs e optind argv s = Return p \<longrightarrow>
      at_most_one_bit (conversions_mask p AND (C_ASCII OR C_EBCDIC OR C_IBM))
      \<and> at_most_one_bit (conversions_mask p AND (C_BLOCK OR C_UNBLOCK))
      \<and> at_most_one_bit (conversions_mask p AND (C_LCASE OR C_UCASE))
      \<and> at_most_one_bit (conversions_mask p AND (C_EXCL OR C_NOCREAT))
      \<and> at_most_one_bit (input_flags p AND (O_DIRECT e OR O_NOCACHE e))
      \<and> at_most_one_bit (output_flags p AND (O_DIRECT e OR O_NOCACHE e)))
   \<and> (and_then (operand_pass e optind argv s) (resolve_fields e) = Return c \<longrightarrow>
      (\<not> at_most_one_bit (conversions_mask c AND (C_ASCII OR C_EBCDIC OR C_IBM)) \<longrightarrow>
         scanargs e optind argv s =
           Exit EXIT_FAILURE
             (transcript c @
              [Diagnostic No_errno ''cannot combine any two of {ascii,ebcdic,ibm}'']))
      \<and> (at_most_one_bit (conversions_mask c AND (C_ASCII OR C_EBCDIC OR C_IBM))
           \<and> \<not> at_most_one_bit (conversions_mask c AND (C_BLOCK OR C_UNBLOCK)) \<longrightarrow>
         scanargs e optind argv s =
           Exit EXIT_FAILURE
             (transcript c @ [Diagnostic No_errno ''cannot combine block and unblock'']))
      \<and> (at_most_one_bit (conversions_mask c AND (C_ASCII OR C_EBCDIC OR C_IBM))
           \<and> at_most_one_bit (conversions_mask c AND (C_BLOCK OR C_UNBLOCK))
           \<and> \<not> at_most_one_bit (conversions_mask c AND (C_LCASE OR C_UCASE)) \<longrightarrow>
         scanargs e optind argv s =
           Exit EXIT_FAILURE
             (transcript c @ [Diagnostic No_errno ''cannot combine lcase and ucase'']))
      \<and> (at_most_one_bit (conversions_mask c AND (C_ASCII OR C_EBCDIC OR C_IBM))
           \<and> at_most_one_bit (conversions_mask c AND (C_BLOCK OR C_UNBLOCK))
           \<and> at_most_one_bit (conversions_mask c AND (C_LCASE OR C_UCASE))
           \<and> \<not> at_most_one_bit (conversions_mask c AND (C_EXCL OR C_NOCREAT)) \<longrightarrow>
         scanargs e optind argv s =
           Exit EXIT_FAILURE
             (transcript c @ [Diagnostic No_errno ''cannot combine excl and nocreat'']))
      \<and> (at_most_one_bit (conversions_mask c AND (C_ASCII OR C_EBCDIC OR C_IBM))
           \<and> at_most_one_bit (conversions_mask c AND (C_BLOCK OR C_UNBLOCK))
           \<and> at_most_one_bit (conversions_mask c AND (C_LCASE OR C_UCASE))
           \<and> at_most_one_bit (conversions_mask c AND (C_EXCL OR C_NOCREAT))
           \<and> (\<not> at_most_one_bit (input_flags c AND (O_DIRECT e OR O_NOCACHE e))
                \<or> \<not> at_most_one_bit (output_flags c AND (O_DIRECT e OR O_NOCACHE e))) \<longrightarrow>
         scanargs e optind argv s =
           Exit EXIT_FAILURE
             (transcript c @ [Diagnostic No_errno ''cannot combine direct and nocache''])))"
proof (intro conjI impI)
  assume acc: "scanargs e optind argv s = Return p"
  then obtain r where "resolve e r = Return p" by (rule scanargs_Return)
  then obtain c' where c: "check_exclusive e c' = Return c'" "p = resolve_nocache e c'"
    by (rule resolve_Return)
  note ok = check_exclusive_Return(2-7) [OF c(1), unfolded multiple_bits_set_iff, simplified]
  show "at_most_one_bit (conversions_mask p AND (C_ASCII OR C_EBCDIC OR C_IBM))"
    using ok(1) by (simp add: c(2) resolve_nocache_same)
  show "at_most_one_bit (conversions_mask p AND (C_BLOCK OR C_UNBLOCK))"
    using ok(2) by (simp add: c(2) resolve_nocache_same)
  show "at_most_one_bit (conversions_mask p AND (C_LCASE OR C_UCASE))"
    using ok(3) by (simp add: c(2) resolve_nocache_same)
  show "at_most_one_bit (conversions_mask p AND (C_EXCL OR C_NOCREAT))"
    using ok(4) by (simp add: c(2) resolve_nocache_same)
  show "at_most_one_bit (input_flags p AND (O_DIRECT e OR O_NOCACHE e))"
    using ok(5) by (simp add: c(2) resolve_nocache_flags at_most_one_bit_subset)
  show "at_most_one_bit (output_flags p AND (O_DIRECT e OR O_NOCACHE e))"
    using ok(6) by (simp add: c(2) resolve_nocache_flags at_most_one_bit_subset)
qed (simp_all add: scanargs_at_checks check_exclusive_cases)

text \<open>An accepted run with \<open>conv=ascii\<close>, and one rejected run for each of the five
  diagnostics.\<close>

theorem exclusive_groups_witness:
  "scanargs sample 1 [''dd'', ''conv=ascii''] initial_state =
     Return (initial_state\<lparr>conversions_mask := C_ASCII OR C_TWOBUFS, input_blocksize := 512,
               output_blocksize := 512, count := - 1\<rparr>)
   \<and> at_most_one_bit ((C_ASCII OR C_TWOBUFS) AND (C_ASCII OR C_EBCDIC OR C_IBM))
   \<and> and_then (operand_pass sample 1 [''dd'', ''conv=ascii,ebcdic''] initial_state)
         (resolve_fields sample) =
       Return (initial_state\<lparr>conversions_mask := C_ASCII OR C_EBCDIC OR C_TWOBUFS,
                 input_blocksize := 512, output_blocksize := 512, count := - 1\<rparr>)
   \<and> \<not> at_most_one_bit ((C_ASCII OR C_EBCDIC OR C_TWOBUFS) AND (C_ASCII OR C_EBCDIC OR C_IBM))
   \<and> scanargs sample 1 [''dd'', ''conv=ascii,ebcdic''] initial_state =
       Exit EXIT_FAILURE [Diagnostic No_errno ''cannot combine any two of {ascii,ebcdic,ibm}'']
   \<and> and_then (operand_pass sample 1 [''dd'', ''conv=block,unblock'', ''cbs=1''] initial_state)
         (resolve_fields sample) =
       Return (initial_state\<lparr>conversions_mask := C_BLOCK OR C_UNBLOCK OR C_TWOBUFS,
                 input_blocksize := 512, output_blocksize := 512, conversion_blocksize := 1,
                 count := - 1\<rparr>)
   \<and> \<not> at_most_one_bit ((C_BLOCK OR C_UNBLOCK OR C_TWOBUFS) AND (C_BLOCK OR C_UNBLOCK))
   \<and> scanargs sample 1 [''dd'', ''conv=block,unblock'', ''cbs=1''] initial_state =
       Exit EXIT_FAILURE [Diagnostic No_errno ''cannot combine block and unblock'']
   \<and> and_then (operand_pass sample 1 [''dd'', ''conv=lcase,ucase''] initial_state)
         (resolve_fields sample) =
       Return (initial_state\<lparr>conversions_mask := C_LCASE OR C_UCASE OR C_TWOBUFS,
                 input_blocksize := 512, output_blocksize := 512, count := - 1\<rparr>)
   \<and> \<not> at_most_one_bit ((C_LCASE OR C_UCASE OR C_TWOBUFS) AND (C_LCASE OR C_UCASE))
   \<and> scanargs sample 1 [''dd'', ''conv=lcase,ucase''] initial_state =
       Exit EXIT_FAILURE [Diagnostic No_errno ''cannot combine lcase and ucase'']
   \<and> and_then (operand_pass sample 1 [''dd'', ''conv=excl,nocreat''] initial_state)
         (resolve_fields sample) =
       Return (initial_state\<lparr>conversions_mask := C_EXCL OR C_NOCREAT OR C_TWOBUFS,
                 input_blocksize := 512, output_blocksize := 512, count := - 1\<rparr>)
   \<and> \<not> at_most_one_bit ((C_EXCL OR C_NOCREAT OR C_TWOBUFS) AND (C_EXCL OR C_NOCREAT))
   \<and> scanargs sample 1 [''dd'', ''conv=excl,nocreat''] initial_state =
       Exit EXIT_FAILURE [Diagnostic No_errno ''cannot combine excl and nocreat'']
   \<and> and_then (operand_pass sample 1 [''dd'', ''iflag=direct,nocache''] initial_state)
         (resolve_fields sample) =
       Return (initial_state\<lparr>conversions_mask := C_TWOBUFS,
                 input_flags := O_DIRECT sample OR O_NOCACHE sample,
                 input_blocksize := 512, output_blocksize := 512, count := - 1\<rparr>)
   \<and> \<not> at_most_one_bit
         ((O_DIRECT sample OR O_NOCACHE sample) AND (O_DIRECT sample OR O_NOCACHE sample))
   \<and> scanargs sample 1 [''dd'', ''iflag=direct,nocache''] initial_state =
       Exit EXIT_FAILURE [Diagnostic No_errno ''cannot combine direct and nocache'']"
proof -
  have p: "scanargs sample 1 [''dd'', ''conv=ascii''] initial_state =
     Return (initial_state\<lparr>conversions_mask := C_ASCII OR C_TWOBUFS, input_blocksize := 512,
               output_blocksize := 512, count := - 1\<rparr>)"
    by (simp add: run_defs)
  have c1: "and_then (operand_pass sample 1 [''dd'', ''conv=ascii,ebcdic''] initial_state)
         (resolve_fields sample) =
       Return (initial_state\<lparr>conversions_mask := C_ASCII OR C_EBCDIC OR C_TWOBUFS,
                 input_blocksize := 512, output_blocksize := 512, count := - 1\<rparr>)"
    by (simp add: run_defs)
  have c2: "and_then
         (operand_pass sample 1 [''dd'', ''conv=block,unblock'', ''cbs=1''] initial_state)
         (resolve_fields sample) =
       Return (initial_state\<lparr>conversions_mask := C_BLOCK OR C_UNBLOCK OR C_TWOBUFS,
                 input_blocksize := 512, output_blocksize := 512, conversion_blocksize := 1,
                 count := - 1\<rparr>)"
    by (simp add: run_defs)
  have c3: "and_then (operand_pass sample 1 [''dd'', ''conv=lcase,ucase''] initial_state)
         (resolve_fields sample) =
       Return (initial_state\<lparr>conversions_mask := C_LCASE OR C_UCASE OR C_TWOBUFS,
                 input_blocksize := 512, output_blocksize := 512, count := - 1\<rparr>)"
    by (simp add: run_defs)
  have c4: "and_then (operand_pass sample 1 [''dd'', ''conv=excl,nocreat''] initial_state)
         (resolve_fields sample) =
       Return (initial_state\<lparr>conversions_mask := C_EXCL OR C_NOCREAT OR C_TWOBUFS,
                 input_blocksize := 512, output_blocksize := 512, count := - 1\<rparr>)"
    by (simp add: run_defs)
  have c5: "and_then (operand_pass sample 1 [''dd'', ''iflag=direct,nocache''] initial_state)
         (resolve_fields sample) =
       Return (initial_state\<lparr>conversions_mask := C_TWOBUFS,
                 input_flags := O_DIRECT sample OR O_NOCACHE sample,
                 input_blocksize := 512, output_blocksize := 512, count := - 1\<rparr>)"
    by (simp add: run_defs)
  have bits:
    "at_most_one_bit ((C_ASCII OR C_TWOBUFS) AND (C_ASCII OR C_EBCDIC OR C_IBM))"
    "\<not> at_most_one_bit ((C_ASCII OR C_EBCDIC OR C_TWOBUFS) AND (C_ASCII OR C_EBCDIC OR C_IBM))"
    "at_most_one_bit ((C_BLOCK OR C_UNBLOCK OR C_TWOBUFS) AND (C_ASCII OR C_EBCDIC OR C_IBM))"
    "\<not> at_most_one_bit ((C_BLOCK OR C_UNBLOCK OR C_TWOBUFS) AND (C_BLOCK OR C_UNBLOCK))"
    "at_most_one_bit ((C_LCASE OR C_UCASE OR C_TWOBUFS) AND (C_ASCII OR C_EBCDIC OR C_IBM))"
    "at_most_one_bit ((C_LCASE OR C_UCASE OR C_TWOBUFS) AND (C_BLOCK OR C_UNBLOCK))"
    "\<not> at_most_one_bit ((C_LCASE OR C_UCASE OR C_TWOBUFS) AND (C_LCASE OR C_UCASE))"
    "at_most_one_bit ((C_EXCL OR C_NOCREAT OR C_TWOBUFS) AND (C_ASCII OR C_EBCDIC OR C_IBM))"
    "at_most_one_bit ((C_EXCL OR C_NOCREAT OR C_TWOBUFS) AND (C_BLOCK OR C_UNBLOCK))"
    "at_most_one_bit ((C_EXCL OR C_NOCREAT OR C_TWOBUFS) AND (C_LCASE OR C_UCASE))"
    "\<not> at_most_one_bit ((C_EXCL OR C_NOCREAT OR C_TWOBUFS) AND (C_EXCL OR C_NOCREAT))"
    "at_most_one_bit (C_TWOBUFS AND (C_ASCII OR C_EBCDIC OR C_IBM))"
    "at_most_one_bit (C_TWOBUFS AND (C_BLOCK OR C_UNBLOCK))"
    "at_most_one_bit (C_TWOBUFS AND (C_LCASE OR C_UCASE))"
    "at_most_one_bit (C_TWOBUFS AND (C_EXCL OR C_NOCREAT))"
    "\<not> at_most_one_bit
         ((O_DIRECT sample OR O_NOCACHE sample) AND (O_DIRECT sample OR O_NOCACHE sample))"
    by (simp_all add: at_most_one_bit_and_pred c_defs sample_defs)
  have init: "transcript initial_state = []"
    by (simp add: initial_state_def)
  note g = exclusive_groups [where e = sample and optind = 1 and s = initial_state]
  show ?thesis
    using p c1 c2 c3 c4 c5 bits
      g [where argv = "[''dd'', ''conv=ascii'']", THEN conjunct1, rule_format, OF p]
      g [where argv = "[''dd'', ''conv=ascii,ebcdic'']", THEN conjunct2, rule_format, OF c1]
      g [where argv = "[''dd'', ''conv=block,unblock'', ''cbs=1'']", THEN conjunct2,
         rule_format, OF c2]
      g [where argv = "[''dd'', ''conv=lcase,ucase'']", THEN conjunct2, rule_format, OF c3]
      g [where argv = "[''dd'', ''conv=excl,nocreat'']", THEN conjunct2, rule_format, OF c4]
      g [where argv = "[''dd'', ''iflag=direct,nocache'']", THEN conjunct2, rule_format, OF c5]
    by (simp add: init)
qed

subsection \<open>Skip, count and the warning\<close>

text \<open>
  Claim C8. Let \<open>r\<close> be the state after the operand pass of an accepted configuration, so
  that \<open>skip r\<close> is the value \<open>N\<close> of the \<open>skip\<close> operand (0 without one), and let the
  program start with \<open>skip_records\<close> and \<open>skip_bytes\<close> at 0. With the \<open>skip_bytes\<close> bit in
  the input flags, as the resolver tests them after the sync alias, the plan has
  \<open>skip_records = N / B\<close> and \<open>skip_bytes = N % B\<close> for the resolved input block size \<open>B\<close>;
  without the bit and with \<open>N\<close> not 0 it has \<open>skip_records = N\<close> and \<open>skip_bytes = 0\<close>.
\<close>

theorem skip_split:
  assumes "operand_pass e optind argv s = Return r"
    and "scanargs e optind argv s = Return p"
    and "skip_records s = 0" and "skip_bytes s = 0"
  shows "(case last_operand ''skip'' (drop optind argv) of
            None \<Rightarrow> skip r = 0 | Some v \<Rightarrow> skip r = fst (parse_integer e v))
       \<and> (input_flags (resolve_rsync e r) AND O_SKIP_BYTES e \<noteq> 0 \<longrightarrow>
            skip_records p = skip r div input_blocksize p
            \<and> skip_bytes p = skip r mod input_blocksize p)
       \<and> (input_flags (resolve_rsync e r) AND O_SKIP_BYTES e = 0 \<and> skip r \<noteq> 0 \<longrightarrow>
            skip_records p = skip r \<and> skip_bytes p = 0)"
proof -
  from assms(1,2) have res: "resolve e r = Return p"
    by (simp add: scanargs_def)
  from assms(1) have run: "scan_operands e (drop optind argv)
      (s\<lparr>blocksize := 0, count := - 1, skip := 0, seek := 0\<rparr>) = Return r"
    by (simp add: operand_pass_def)
  have zero: "skip_records r = 0" "skip_bytes r = 0"
    using pass_derived [OF run] assms(3,4) by simp_all
  have n: "case last_operand ''skip'' (drop optind argv) of
            None \<Rightarrow> skip r = 0 | Some v \<Rightarrow> skip r = fst (parse_integer e v)"
    using pass_number [OF run, of Op_skip] by (simp add: is_number_def split: option.splits)
  show ?thesis
    using n zero by (simp add: plan_skip [OF res])
qed

text \<open>A run with \<open>iflag=skip_bytes skip=1030\<close> and one with \<open>skip=3\<close>.\<close>

theorem skip_split_witness:
  "operand_pass sample 1 [''dd'', ''iflag=skip_bytes'', ''skip=1030''] initial_state =
     Return (initial_state\<lparr>input_flags := O_SKIP_BYTES sample, count := - 1, skip := 1030\<rparr>)
   \<and> scanargs sample 1 [''dd'', ''iflag=skip_bytes'', ''skip=1030''] initial_state =
     Return (initial_state\<lparr>conversions_mask := C_TWOBUFS, input_flags := O_SKIP_BYTES sample,
               input_blocksize := 512, output_blocksize := 512, skip_records := 2,
               skip_bytes := 6, count := - 1, skip := 1030\<rparr>)
   \<and> skip_records initial_state = 0 \<and> skip_bytes initial_state = 0
   \<and> input_flags (resolve_rsync sample
         (initial_state\<lparr>input_flags := O_SKIP_BYTES sample, count := - 1, skip := 1030\<rparr>))
       AND O_SKIP_BYTES sample \<noteq> 0
   \<and> last_operand ''skip'' (drop 1 [''dd'', ''iflag=skip_bytes'', ''skip=1030'']) = Some ''1030''
   \<and> fst (parse_integer sample ''1030'') = 1030
   \<and> (1030 :: uintmax) div 512 = 2 \<and> (1030 :: uintmax) mod 512 = 6
   \<and> operand_pass sample 1 [''dd'', ''skip=3''] initial_state =
     Return (initial_state\<lparr>count := - 1, skip := 3\<rparr>)
   \<and> scanargs sample 1 [''dd'', ''skip=3''] initial_state =
     Return (initial_state\<lparr>conversions_mask := C_TWOBUFS, input_blocksize := 512,
               output_blocksize := 512, skip_records := 3, count := - 1, skip := 3\<rparr>)
   \<and> input_flags (resolve_rsync sample (initial_state\<lparr>count := - 1, skip := 3\<rparr>))
       AND O_SKIP_BYTES sample = 0"
proof -
  have r1: "operand_pass sample 1 [''dd'', ''iflag=skip_bytes'', ''skip=1030''] initial_state =
     Return (initial_state\<lparr>input_flags := O_SKIP_BYTES sample, count := - 1, skip := 1030\<rparr>)"
    by (simp add: run_defs)
  have p1: "scanargs sample 1 [''dd'', ''iflag=skip_bytes'', ''skip=1030''] initial_state =
     Return (initial_state\<lparr>conversions_mask := C_TWOBUFS, input_flags := O_SKIP_BYTES sample,
               input_blocksize := 512, output_blocksize := 512, skip_records := 2,
               skip_bytes := 6, count := - 1, skip := 1030\<rparr>)"
    by (simp add: run_defs)
  have r2: "operand_pass sample 1 [''dd'', ''skip=3''] initial_state =
     Return (initial_state\<lparr>count := - 1, skip := 3\<rparr>)"
    by (simp add: run_defs)
  have p2: "scanargs sample 1 [''dd'', ''skip=3''] initial_state =
     Return (initial_state\<lparr>conversions_mask := C_TWOBUFS, input_blocksize := 512,
               output_blocksize := 512, skip_records := 3, count := - 1, skip := 3\<rparr>)"
    by (simp add: run_defs)
  have z: "skip_records initial_state = 0" "skip_bytes initial_state = 0"
    by (simp_all add: initial_state_def)
  have f: "input_flags (resolve_rsync sample
         (initial_state\<lparr>input_flags := O_SKIP_BYTES sample, count := - 1, skip := 1030\<rparr>))
       AND O_SKIP_BYTES sample \<noteq> 0"
    "input_flags (resolve_rsync sample (initial_state\<lparr>count := - 1, skip := 3\<rparr>))
       AND O_SKIP_BYTES sample = 0"
    by (simp_all add: resolve_rsync_def sample_defs)
  have l: "last_operand ''skip'' (drop 1 [''dd'', ''iflag=skip_bytes'', ''skip=1030''])
      = Some ''1030''" "fst (parse_integer sample ''1030'') = 1030"
    by (simp_all add: operand_defs sample_defs)
  show ?thesis
    using skip_split [OF r1 p1 z] skip_split [OF r2 p2 z] r1 p1 r2 p2 z f l
    by simp
qed

text \<open>
  Claim C9. In every accepted configuration \<open>warn_partial_read\<close> is true if and only if
  \<open>C_TWOBUFS\<close> is off in the conversions mask, the \<open>fullblock\<close> input flag is off, and
  \<open>skip_records\<close> is positive, or \<open>max_records\<close> is positive and below the sentinel, or
  \<open>O_DIRECT\<close> is in the input or the output flags. The flags are those that the resolver
  tests: the input flags of the operand pass after the sync alias, the output flags of
  the operand pass.
\<close>

theorem warn_partial_read_iff:
  assumes "operand_pass e optind argv s = Return r"
    and "scanargs e optind argv s = Return p"
  shows "warn_partial_read p \<longleftrightarrow>
    conversions_mask p AND C_TWOBUFS = 0
    \<and> input_flags (resolve_rsync e r) AND O_FULLBLOCK e = 0
    \<and> (0 < skip_records p
         \<or> (0 < max_records p \<and> max_records p < UINTMAX_MAX)
         \<or> input_flags (resolve_rsync e r) AND O_DIRECT e \<noteq> 0
         \<or> output_flags r AND O_DIRECT e \<noteq> 0)"
proof -
  from assms have res: "resolve e r = Return p"
    by (simp add: scanargs_def)
  have direct: "(a OR b) AND d \<noteq> 0 \<longleftrightarrow> a AND d \<noteq> 0 \<or> b AND d \<noteq> 0" for a b d :: cint
    by (auto simp: bit.conj_disj_distrib2 or_eq_0_iff)
  show ?thesis
    by (simp add: plan_warn [OF res] direct UINTMAX_MAX_def word_gt_0)
qed

text \<open>A run with \<open>bs=4 count=10\<close>, for which the warning is on.\<close>

theorem warn_partial_read_iff_witness:
  "operand_pass sample 1 [''dd'', ''bs=4'', ''count=10''] initial_state =
     Return (initial_state\<lparr>blocksize := 4, count := 10\<rparr>)
   \<and> scanargs sample 1 [''dd'', ''bs=4'', ''count=10''] initial_state =
     Return (initial_state\<lparr>input_blocksize := 4, output_blocksize := 4, max_records := 10,
               warn_partial_read := True, blocksize := 4, count := 10\<rparr>)
   \<and> warn_partial_read (initial_state\<lparr>input_blocksize := 4, output_blocksize := 4,
         max_records := 10, warn_partial_read := True, blocksize := 4, count := 10\<rparr>)
   \<and> conversions_mask (initial_state\<lparr>input_blocksize := 4, output_blocksize := 4,
         max_records := 10, warn_partial_read := True, blocksize := 4, count := 10\<rparr>)
       AND C_TWOBUFS = 0
   \<and> input_flags (resolve_rsync sample (initial_state\<lparr>blocksize := 4, count := 10\<rparr>))
       AND O_FULLBLOCK sample = 0
   \<and> 0 < max_records (initial_state\<lparr>input_blocksize := 4, output_blocksize := 4,
         max_records := 10, warn_partial_read := True, blocksize := 4, count := 10\<rparr>)
   \<and> max_records (initial_state\<lparr>input_blocksize := 4, output_blocksize := 4,
         max_records := 10, warn_partial_read := True, blocksize := 4, count := 10\<rparr>)
       < UINTMAX_MAX"
proof -
  have r: "operand_pass sample 1 [''dd'', ''bs=4'', ''count=10''] initial_state =
     Return (initial_state\<lparr>blocksize := 4, count := 10\<rparr>)"
    by (simp add: run_defs)
  have p: "scanargs sample 1 [''dd'', ''bs=4'', ''count=10''] initial_state =
     Return (initial_state\<lparr>input_blocksize := 4, output_blocksize := 4, max_records := 10,
               warn_partial_read := True, blocksize := 4, count := 10\<rparr>)"
    by (simp add: run_defs)
  have f: "input_flags (resolve_rsync sample (initial_state\<lparr>blocksize := 4, count := 10\<rparr>))
       AND O_FULLBLOCK sample = 0"
    by (simp add: resolve_rsync_def sample_defs)
  show ?thesis
    using warn_partial_read_iff [OF r p] r p f
    by (simp add: initial_state_def UINTMAX_MAX_def)
qed

subsection \<open>Repeated operands\<close>

text \<open>
  Claim C5, as the code has it. Let an argument list that the loop accepts contain two
  operands \<open>a\<close> and \<open>b\<close> of the same name, \<open>b\<close> being the last of that name. For every name
  but \<open>conv\<close>, \<open>iflag\<close> and \<open>oflag\<close> the raw field is the one that \<open>b\<close> alone produces.
  For \<open>conv\<close>, \<open>iflag\<close> and \<open>oflag\<close>, when \<open>a\<close> and \<open>b\<close> are the only operands of the name,
  the raw field is the bitwise OR of the fields that \<open>a\<close> alone and \<open>b\<close> alone produce:
  the loop collects these values with \<open>|=\<close>.
\<close>

theorem last_occurrence_wins:
  assumes "scan_operands e (pre @ a # mid @ b # post) s = Return r"
    and "operand_is a (operand_name op)" and "operand_is b (operand_name op)"
    and "\<forall>x\<in>set post. \<not> operand_is x (operand_name op)"
  shows "(\<not> accumulates op \<longrightarrow>
            (\<exists>rb. scan_operands e [b] s = Return rb \<and> raw_field op r = raw_field op rb))
       \<and> (accumulates op \<and> (\<forall>x\<in>set (pre @ mid). \<not> operand_is x (operand_name op)) \<longrightarrow>
            (\<exists>ra rb. scan_operands e [a] s = Return ra \<and> scan_operands e [b] s = Return rb
               \<and> raw_field op r = raw_or (raw_field op ra) (raw_field op rb)))"
proof -
  from assms(1) obtain s1 s2 where a: "scan_operands e pre s = Return s1"
    "scan_operand e a s1 = Return s2" and rest: "scan_operands e (mid @ b # post) s2 = Return r"
    by (rule scan_operands_split)
  from rest obtain s3 s4 where b: "scan_operands e mid s2 = Return s3"
    "scan_operand e b s3 = Return s4" "scan_operands e post s4 = Return r"
    by (rule scan_operands_split)
  obtain ra where ra: "scan_operand e a s = Return ra"
    using step_returns_anywhere [OF a(2)] by blast
  obtain rb where rb: "scan_operand e b s = Return rb"
    using step_returns_anywhere [OF b(2)] by blast
  have last: "raw_field op r = raw_field op s4"
    using b(3) assms(4) by (rule pass_frame)
  show ?thesis
  proof (intro conjI impI)
    assume "\<not> accumulates op"
    then have "raw_field op s4 = raw_field op rb"
      using step_result [OF b(2) assms(3)] step_result [OF rb assms(3)] by simp
    with last rb show "\<exists>rb. scan_operands e [b] s = Return rb \<and> raw_field op r = raw_field op rb"
      by simp
  next
    assume acc: "accumulates op \<and> (\<forall>x\<in>set (pre @ mid). \<not> operand_is x (operand_name op))"
    then have f1: "raw_field op s1 = raw_field op s"
      using pass_frame [OF a(1), of op] by simp
    from acc have f3: "raw_field op s3 = raw_field op s2"
      using pass_frame [OF b(1), of op] by simp
    from acc obtain m where m: "raw_field op s = Mask m"
      using accumulates_field by blast
    from acc obtain ma where ma: "operand_result e op (operand_value a) = Mask ma"
      using accumulates_result by blast
    from acc obtain mb where mb: "operand_result e op (operand_value b) = Mask mb"
      using accumulates_result by blast
    have "raw_field op r = Mask ((m OR ma) OR mb)"
      using acc last f1 f3 m ma mb step_result [OF a(2) assms(2)] step_result [OF b(2) assms(3)]
      by simp
    moreover have "raw_field op ra = Mask (m OR ma)"
      using acc m ma step_result [OF ra assms(2)] by simp
    moreover have "raw_field op rb = Mask (m OR mb)"
      using acc m mb step_result [OF rb assms(3)] by simp
    moreover have "(m OR ma) OR (m OR mb) = (m OR ma) OR mb"
      by (simp add: or.assoc or.left_commute)
    ultimately show "\<exists>ra rb. scan_operands e [a] s = Return ra \<and> scan_operands e [b] s = Return rb
               \<and> raw_field op r = raw_or (raw_field op ra) (raw_field op rb)"
      using ra rb by simp
  qed
qed

text \<open>The operands \<open>bs=4 bs=8\<close> and \<open>conv=sync conv=noerror\<close>.\<close>

theorem last_occurrence_wins_witness:
  "scan_operands sample [''bs=4'', ''bs=8''] initial_state =
     Return (initial_state\<lparr>blocksize := 8\<rparr>)
   \<and> operand_is ''bs=4'' (operand_name Op_bs) \<and> operand_is ''bs=8'' (operand_name Op_bs)
   \<and> \<not> accumulates Op_bs
   \<and> scan_operands sample [''bs=8''] initial_state = Return (initial_state\<lparr>blocksize := 8\<rparr>)
   \<and> raw_field Op_bs (initial_state\<lparr>blocksize := 8\<rparr>) = Number 8
   \<and> scan_operands sample [''conv=sync'', ''conv=noerror''] initial_state =
     Return (initial_state\<lparr>conversions_mask := C_SYNC OR C_NOERROR\<rparr>)
   \<and> operand_is ''conv=sync'' (operand_name Op_conv)
   \<and> operand_is ''conv=noerror'' (operand_name Op_conv)
   \<and> accumulates Op_conv
   \<and> scan_operands sample [''conv=sync''] initial_state =
     Return (initial_state\<lparr>conversions_mask := C_SYNC\<rparr>)
   \<and> scan_operands sample [''conv=noerror''] initial_state =
     Return (initial_state\<lparr>conversions_mask := C_NOERROR\<rparr>)
   \<and> raw_field Op_conv (initial_state\<lparr>conversions_mask := C_SYNC OR C_NOERROR\<rparr>) =
     raw_or (raw_field Op_conv (initial_state\<lparr>conversions_mask := C_SYNC\<rparr>))
       (raw_field Op_conv (initial_state\<lparr>conversions_mask := C_NOERROR\<rparr>))"
proof -
  have r1: "scan_operands sample ([] @ ''bs=4'' # [] @ ''bs=8'' # []) initial_state =
     Return (initial_state\<lparr>blocksize := 8\<rparr>)"
    by (simp add: run_defs)
  have n1: "operand_is ''bs=4'' (operand_name Op_bs)" "operand_is ''bs=8'' (operand_name Op_bs)"
    by (simp_all add: operand_is_def)
  have r2: "scan_operands sample ([] @ ''conv=sync'' # [] @ ''conv=noerror'' # [])
      initial_state = Return (initial_state\<lparr>conversions_mask := C_SYNC OR C_NOERROR\<rparr>)"
    by (simp add: run_defs)
  have n2: "operand_is ''conv=sync'' (operand_name Op_conv)"
    "operand_is ''conv=noerror'' (operand_name Op_conv)"
    by (simp_all add: operand_is_def)
  have none: "\<forall>x\<in>set []. \<not> operand_is x name" for name
    by simp
  have acc: "\<not> accumulates Op_bs" "accumulates Op_conv"
    by (simp_all add: accumulates_def)
  have single: "scan_operands sample [''bs=8''] initial_state =
      Return (initial_state\<lparr>blocksize := 8\<rparr>)"
    "scan_operands sample [''conv=sync''] initial_state =
      Return (initial_state\<lparr>conversions_mask := C_SYNC\<rparr>)"
    "scan_operands sample [''conv=noerror''] initial_state =
      Return (initial_state\<lparr>conversions_mask := C_NOERROR\<rparr>)"
    by (simp_all add: run_defs)
  show ?thesis
    using last_occurrence_wins [OF r1 n1 none] last_occurrence_wins [OF r2 n2 none]
      r1 r2 n1 n2 acc single
    by simp
qed

text \<open>The claim as stated fails for \<open>conv\<close>: after \<open>conv=sync conv=noerror\<close> the mask has
  both bits, not the one of \<open>conv=noerror\<close> alone.\<close>

theorem conv_accumulates_counterexample:
  "field_of conversions_mask
     (operand_pass sample 1 [''dd'', ''conv=sync'', ''conv=noerror''] initial_state)
     = Some (C_SYNC OR C_NOERROR)
   \<and> field_of conversions_mask
       (operand_pass sample 1 [''dd'', ''conv=noerror''] initial_state) = Some C_NOERROR
   \<and> C_SYNC OR C_NOERROR \<noteq> C_NOERROR"
  by (simp add: scan_defs sample_defs c_defs)

subsection \<open>The sentinel of \<open>count\<close>\<close>

text \<open>In front of every other \<open>count\<close> operand, a \<open>count=\<close> operand with the largest
  \<open>uintmax_t\<close> has no effect at all.\<close>

lemma count_max_no_effect:
  assumes "parse_integer e v = (UINTMAX_MAX, LONGINT_OK)"
    and "optind \<le> length pre"
    and "\<forall>x\<in>set (drop optind pre). \<not> operand_is x ''count''"
  shows "scanargs e optind (pre @ (''count='' @ v) # post) s = scanargs e optind (pre @ post) s"
proof -
  define s0 where "s0 = s\<lparr>blocksize := 0, count := - 1, skip := 0, seek := 0\<rparr>"
  have same: "and_then (scan_operand e (''count='' @ v) s1) (scan_operands e post)
      = scan_operands e post s1"
    if "scan_operands e (drop optind pre) s0 = Return s1" for s1
  proof -
    have "raw_field Op_count s1 = raw_field Op_count s0"
      using that assms(3) by (intro pass_frame) simp_all
    then have "count s1 = - 1" by (simp add: s0_def)
    then have "s1\<lparr>count := - 1\<rparr> = s1" by simp
    then show ?thesis using count_max_step [OF assms(1), of s1] by simp
  qed
  have "operand_pass e optind (pre @ (''count='' @ v) # post) s
      = operand_pass e optind (pre @ post) s"
    using assms(2) same
    by (cases "scan_operands e (drop optind pre) s0")
      (simp_all add: operand_pass_def scan_operands_append s0_def [symmetric])
  then show ?thesis
    by (simp add: scanargs_def)
qed

text \<open>
  Claim C10. Let the \<open>count=\<close> operand that an invocation supplies, the last of that name
  among its arguments, have the largest \<open>uintmax_t\<close> as its value. Then \<open>count\<close> is treated
  as unset, whatever precedes the operand: an accepted plan has \<open>max_records\<close> and
  \<open>max_bytes\<close> as they were at the start, no limit being derived, and it is the plan of
  the same invocation without its \<open>count\<close> operands. When the integer parser accepts the
  value of every \<open>count\<close> operand, \<open>scanargs\<close> gives the same result with and without
  them, also when it rejects the invocation.
\<close>

theorem count_max_is_unset:
  assumes "last_operand ''count'' (drop optind argv) = Some v"
    and "fst (parse_integer e v) = UINTMAX_MAX"
  shows "(\<forall>p. scanargs e optind argv s = Return p \<longrightarrow>
            max_records p = max_records s \<and> max_bytes p = max_bytes s
            \<and> scanargs e optind (omit_operands ''count'' optind argv) s = Return p)
       \<and> ((\<forall>x\<in>set (drop optind argv). operand_is x ''count'' \<longrightarrow>
              CHR ''='' \<in> set x \<and> snd (parse_integer e (operand_value x)) = LONGINT_OK) \<longrightarrow>
            scanargs e optind argv s
              = scanargs e optind (omit_operands ''count'' optind argv) s)"
proof -
  define s0 where "s0 = s\<lparr>blocksize := 0, count := - 1, skip := 0, seek := 0\<rparr>"
  define args where "args = drop optind argv"
  have unset: "count r = - 1" if "scan_operands e args s0 = Return r" for r
  proof -
    have "raw_field Op_count r = Number (fst (parse_integer e v))"
      using pass_number [OF that, of Op_count] assms(1)
      by (simp add: is_number_def args_def)
    then show ?thesis by (simp add: assms(2) UINTMAX_MAX_def)
  qed
  have same: "scanargs e optind argv s
      = scanargs e optind (omit_operands ''count'' optind argv) s"
    if valid: "\<forall>x\<in>set args. operand_is x ''count'' \<longrightarrow>
        CHR ''='' \<in> set x \<and> snd (parse_integer e (operand_value x)) = LONGINT_OK"
  proof -
    have f1: "scan_operands e (filter (\<lambda>a. \<not> operand_is a ''count'') args)
          (s0\<lparr>count := - 1\<rparr>)
        = with_count (- 1) (scan_operands e args s0)"
      using valid by (rule pass_with_count)
    have f2: "s0\<lparr>count := - 1\<rparr> = s0"
      by (simp add: s0_def)
    have f3: "with_count (- 1) (scan_operands e args s0) = scan_operands e args s0"
      using unset by (cases "scan_operands e args s0") simp_all
    have "scan_operands e (filter (\<lambda>a. \<not> operand_is a ''count'') args) s0
        = scan_operands e args s0"
      using f1 f3 unfolding f2 by (rule trans)
    then have "operand_pass e optind (omit_operands ''count'' optind argv) s
        = operand_pass e optind argv s"
      by (simp add: operand_pass_def drop_omit_operands s0_def args_def)
    then show ?thesis by (simp only: scanargs_def)
  qed
  have accepted: "max_records p = max_records s \<and> max_bytes p = max_bytes s
      \<and> scanargs e optind (omit_operands ''count'' optind argv) s = Return p"
    if p: "scanargs e optind argv s = Return p" for p
  proof -
    from p obtain r where r: "operand_pass e optind argv s = Return r" "resolve e r = Return p"
      by (rule scanargs_Return)
    from r(1) have run: "scan_operands e args s0 = Return r"
      by (simp add: operand_pass_def s0_def args_def)
    have valid: "\<forall>x\<in>set args. operand_is x ''count'' \<longrightarrow>
        CHR ''='' \<in> set x \<and> snd (parse_integer e (operand_value x)) = LONGINT_OK"
    proof (intro ballI impI)
      fix x
      assume "x \<in> set args" and c: "operand_is x ''count''"
      with run obtain s1 s2 where "scan_operand e x s1 = Return s2"
        by (blast elim: pass_accepts_members)
      then show "CHR ''='' \<in> set x \<and> snd (parse_integer e (operand_value x)) = LONGINT_OK"
        using c by (rule count_step_accepted)
    qed
    have "max_records r = max_records s" "max_bytes r = max_bytes s"
      using pass_derived [OF run] by (simp_all add: s0_def)
    then have "max_records p = max_records s \<and> max_bytes p = max_bytes s"
      using unset [OF run] by (simp add: plan_max [OF r(2)])
    moreover have "scanargs e optind (omit_operands ''count'' optind argv) s = Return p"
      using same [OF valid, symmetric] p by (rule trans)
    ultimately show ?thesis by blast
  qed
  have part1: "\<forall>p. scanargs e optind argv s = Return p \<longrightarrow>
            max_records p = max_records s \<and> max_bytes p = max_bytes s
            \<and> scanargs e optind (omit_operands ''count'' optind argv) s = Return p"
    using accepted by blast
  have part2: "(\<forall>x\<in>set (drop optind argv). operand_is x ''count'' \<longrightarrow>
              CHR ''='' \<in> set x \<and> snd (parse_integer e (operand_value x)) = LONGINT_OK) \<longrightarrow>
            scanargs e optind argv s
              = scanargs e optind (omit_operands ''count'' optind argv) s"
    using same unfolding args_def by blast
  from part1 part2 show ?thesis by (rule conjI)
qed

text \<open>The operands \<open>count=5 count=18446744073709551615\<close>, and a rejected run.\<close>

theorem count_max_is_unset_witness:
  "last_operand ''count'' (drop 1 [''dd'', ''count=5'', ''count=18446744073709551615''])
     = Some ''18446744073709551615''
   \<and> fst (parse_integer sample ''18446744073709551615'') = UINTMAX_MAX
   \<and> scanargs sample 1 [''dd'', ''count=5'', ''count=18446744073709551615''] initial_state =
       Return (initial_state\<lparr>conversions_mask := C_TWOBUFS, input_blocksize := 512,
                 output_blocksize := 512, count := - 1\<rparr>)
   \<and> max_records (initial_state\<lparr>conversions_mask := C_TWOBUFS, input_blocksize := 512,
         output_blocksize := 512, count := - 1\<rparr>) = max_records initial_state
   \<and> max_bytes (initial_state\<lparr>conversions_mask := C_TWOBUFS, input_blocksize := 512,
         output_blocksize := 512, count := - 1\<rparr>) = max_bytes initial_state
   \<and> omit_operands ''count'' 1 [''dd'', ''count=5'', ''count=18446744073709551615'']
       = [''dd'']
   \<and> scanargs sample 1 [''dd''] initial_state =
       Return (initial_state\<lparr>conversions_mask := C_TWOBUFS, input_blocksize := 512,
                 output_blocksize := 512, count := - 1\<rparr>)
   \<and> last_operand ''count''
         (drop 1 [''dd'', ''count=18446744073709551615'', ''conv=ascii,ebcdic''])
       = Some ''18446744073709551615''
   \<and> CHR ''='' \<in> set ''count=18446744073709551615''
   \<and> snd (parse_integer sample (operand_value ''count=18446744073709551615'')) = LONGINT_OK
   \<and> omit_operands ''count'' 1 [''dd'', ''count=18446744073709551615'', ''conv=ascii,ebcdic'']
       = [''dd'', ''conv=ascii,ebcdic'']
   \<and> scanargs sample 1 [''dd'', ''count=18446744073709551615'', ''conv=ascii,ebcdic'']
         initial_state
       = scanargs sample 1 [''dd'', ''conv=ascii,ebcdic''] initial_state
   \<and> scanargs sample 1 [''dd'', ''conv=ascii,ebcdic''] initial_state =
       Exit EXIT_FAILURE [Diagnostic No_errno ''cannot combine any two of {ascii,ebcdic,ibm}'']"
proof -
  have l1: "last_operand ''count''
      (drop 1 [''dd'', ''count=5'', ''count=18446744073709551615''])
     = Some ''18446744073709551615''"
    by (simp add: operand_defs)
  have l2: "last_operand ''count''
         (drop 1 [''dd'', ''count=18446744073709551615'', ''conv=ascii,ebcdic''])
       = Some ''18446744073709551615''"
    by (simp add: operand_defs)
  have v: "fst (parse_integer sample ''18446744073709551615'') = UINTMAX_MAX"
    "snd (parse_integer sample (operand_value ''count=18446744073709551615'')) = LONGINT_OK"
    by (simp_all add: sample_defs UINTMAX_MAX_def operand_value_def)
  have p: "scanargs sample 1 [''dd'', ''count=5'', ''count=18446744073709551615'']
      initial_state =
       Return (initial_state\<lparr>conversions_mask := C_TWOBUFS, input_blocksize := 512,
                 output_blocksize := 512, count := - 1\<rparr>)"
    by (simp add: run_defs)
  have o: "omit_operands ''count'' 1 [''dd'', ''count=5'', ''count=18446744073709551615'']
       = [''dd'']"
    "omit_operands ''count'' 1 [''dd'', ''count=18446744073709551615'', ''conv=ascii,ebcdic'']
       = [''dd'', ''conv=ascii,ebcdic'']"
    by (simp_all add: omit_operands_def operand_is_def)
  have valid: "\<forall>x\<in>set (drop 1 [''dd'', ''count=18446744073709551615'', ''conv=ascii,ebcdic'']).
      operand_is x ''count'' \<longrightarrow>
        CHR ''='' \<in> set x \<and> snd (parse_integer sample (operand_value x)) = LONGINT_OK"
    using v(2) by (simp add: operand_is_def)
  have x: "scanargs sample 1 [''dd'', ''conv=ascii,ebcdic''] initial_state =
       Exit EXIT_FAILURE [Diagnostic No_errno ''cannot combine any two of {ascii,ebcdic,ibm}'']"
    by (simp add: run_defs)
  have first: "max_records (initial_state\<lparr>conversions_mask := C_TWOBUFS,
        input_blocksize := 512, output_blocksize := 512, count := - 1\<rparr>)
        = max_records initial_state
     \<and> max_bytes (initial_state\<lparr>conversions_mask := C_TWOBUFS,
        input_blocksize := 512, output_blocksize := 512, count := - 1\<rparr>)
        = max_bytes initial_state
     \<and> scanargs sample 1
          (omit_operands ''count'' 1 [''dd'', ''count=5'', ''count=18446744073709551615''])
          initial_state =
        Return (initial_state\<lparr>conversions_mask := C_TWOBUFS, input_blocksize := 512,
                 output_blocksize := 512, count := - 1\<rparr>)"
    using count_max_is_unset [OF l1 v(1), of initial_state, THEN conjunct1] p by blast
  have second: "scanargs sample 1
        [''dd'', ''count=18446744073709551615'', ''conv=ascii,ebcdic''] initial_state
      = scanargs sample 1
          (omit_operands ''count'' 1
             [''dd'', ''count=18446744073709551615'', ''conv=ascii,ebcdic'']) initial_state"
    using count_max_is_unset [OF l2 v(1), of initial_state, THEN conjunct2] valid by blast
  show ?thesis
    using l1 l2 v p o x first second by simp
qed

end
